theory Spec2Isabelle
  imports Main
begin

section \<open>The account store of dashboard.py\<close>

text \<open>
  The program is a single Streamlit script. Its account half talks to one MySQL table
  \<open>users\<close> through pymysql and hashes passwords with bcrypt. The embedding keeps the
  table, the session state and everything the script does to the outside world (widgets
  and messages it renders, statements it sends to the database) in one record that is
  passed through the functions that change it. What the environment decides (whether a
  connection can be opened, whether a statement raises, which salt bcrypt draws) is an
  argument of the function that meets it.

  Strings are lists of 8-bit characters, read as code points below 256.
\<close>

subsection \<open>Rows, session state and the trace\<close>

text \<open>
  One row of \<open>users\<close>, with the six columns the INSERT statement names. The schema
  of the table is not part of the script; its primary key is the username.
\<close>

record user =
  username :: string
  first_name :: string
  last_name :: string
  email :: string
  phone_number :: string
  password :: string

datatype page = Register | Login | Admin_login | Main_page | Edit_profile | Admin_panel

datatype db_event = Connect | Execute string | Commit | Close

datatype chart =
    Heatmap "string list"
  | Bar string string
  | Line string string
  | Scatter string string
  | Pie string string

text \<open>
  Everything a run emits, in program order: the \<open>st.*\<close> calls (display calls with their
  text, input widgets with their label) and the database traffic.
\<close>

datatype event =
    Db db_event
  | StError string
  | StWarning string
  | StSuccess string
  | StHeader string
  | StSubheader string
  | StTitle string
  | StMarkdown string
  | StWrite string
  | StData string
  | StPlotly chart
  | Widget string

text \<open>
  pandas column types, as far as the script tells them apart: it compares a dtype with
  \<open>'object'\<close>, \<open>'int64'\<close> and \<open>'float64'\<close> and selects the \<open>'number'\<close> dtypes.
  \<open>Number n\<close> is any other numeric dtype (int32, float32, uint8, ...), \<open>Non_number n\<close>
  any other dtype that is not numeric (bool, datetime64, category, ...).
\<close>

datatype dtype = Object | Int64 | Float64 | Number string | Non_number string

text \<open>
  The calls that display a table or compute on it (\<open>st.write(df.head())\<close>,
  \<open>df.corr()\<close> and the heatmap, \<open>df[col].dtype\<close>, \<open>df.describe()\<close>,
  \<open>df[col].value_counts()\<close>, the chart constructors, \<open>st.plotly_chart\<close>) belong
  to pandas, plotly and Streamlit. Whether such a call raises on a given table is not
  the script's doing: a table carries, for each of them, the text of the exception it
  raises there, if any.
\<close>

datatype display =
    Preview
  | Correlation
  | Field_type string
  | Summary
  | Counts string
  | Column_dtype
  | Figure
  | Show_figure

record dataframe =
  columns :: "(string \<times> dtype) list"
  nrows :: nat
  raises :: "display \<Rightarrow> string option"

text \<open>
  What chardet and pandas make of an uploaded file is not the script's doing: an upload
  carries, along with its name and MIME type, the encoding chardet detects in it, what
  \<open>pd.read_csv\<close> returns for it under a given encoding and what \<open>pd.read_excel\<close>
  with the openpyxl engine returns for it (a table, \<open>ParserError\<close>, or another
  exception with its text).
\<close>

datatype read_result = Parsed dataframe | Parser_error | Other_error string

record upload =
  name :: string
  mime :: string
  encoding :: "string option"
  as_csv :: "string option \<Rightarrow> read_result"
  as_excel :: read_result

text \<open>
  \<open>st.session_state\<close>. The script initialises \<open>authenticated\<close>, \<open>username\<close>,
  \<open>admin_authenticated\<close>, \<open>page\<close> and \<open>uploaded_file\<close>; \<open>confirm_delete\<close> and
  \<open>theme\<close> may be absent (\<open>None\<close>).
\<close>

record world =
  users :: "user list"
  authenticated :: bool
  session_username :: "string option"
  admin_authenticated :: bool
  current_page :: page
  uploaded_file :: "upload option"
  confirm_delete :: "bool option"
  theme :: "string option"
  trace :: "event list"

definition emit :: "event \<Rightarrow> world \<Rightarrow> world" where
  "emit e w = w\<lparr>trace := trace w @ [e]\<rparr>"

definition st_error :: "string \<Rightarrow> world \<Rightarrow> world" where
  "st_error m = emit (StError m)"

definition st_warning :: "string \<Rightarrow> world \<Rightarrow> world" where
  "st_warning m = emit (StWarning m)"

definition st_success :: "string \<Rightarrow> world \<Rightarrow> world" where
  "st_success m = emit (StSuccess m)"

definition st_write :: "string \<Rightarrow> world \<Rightarrow> world" where
  "st_write m = emit (StWrite m)"

subsection \<open>The environment: connections and bcrypt\<close>

text \<open>
  What happens to one connection: it opens and its statement runs, or
  \<open>pymysql.connect\<close> raises \<open>MySQLError\<close> with the given text, or the connection opens
  and the statement (or its commit) raises \<open>MySQLError\<close> with the given text, leaving
  the table as it was.
\<close>

datatype db_outcome = Succeeds | Connect_fails string | Execute_fails string

text \<open>
  The bcrypt library: \<open>hashpw password salt\<close>, which returns the hash (\<open>Inr\<close>) or
  raises \<open>ValueError\<close> with the given text on a password it does not accept (\<open>Inl\<close>),
  and \<open>checkpw password hash\<close>, which answers or raises \<open>ValueError\<close> on a hash it
  cannot read (\<open>None\<close>).
\<close>

record bcrypt =
  hashpw :: "string \<Rightarrow> string \<Rightarrow> string + string"
  checkpw :: "string \<Rightarrow> string \<Rightarrow> bool option"

datatype exn = ValueError string

definition exn_text :: "exn \<Rightarrow> string" where
  "exn_text x = (case x of ValueError msg \<Rightarrow> msg)"

text \<open>
  How a call or a pass ends: it runs to its end, an exception with the given text
  leaves it (none of the functions below catches anything but \<open>MySQLError\<close>), or
  \<open>st.experimental_rerun()\<close> stops the pass (Streamlit's rerun signal is not an
  \<open>Exception\<close>, so the handler around the router does not catch it).
\<close>

datatype ending = Finished | Raised string | Rerun

text \<open>What follows a call that may raise runs only when the call has finished.\<close>

definition and_then ::
  "ending \<times> world \<Rightarrow> (world \<Rightarrow> ending \<times> world) \<Rightarrow> ending \<times> world" where
  "and_then r f = (case r of (Finished, w) \<Rightarrow> f w | (e, w) \<Rightarrow> (e, w))"

text \<open>\<open>create_connection\<close>: the connection, or \<open>None\<close> after an error message.\<close>

definition create_connection :: "db_outcome \<Rightarrow> world \<Rightarrow> bool \<times> world" where
  "create_connection oc w =
     (case oc of
        Connect_fails e \<Rightarrow> (False, st_error (''Database connection error: '' @ e) w)
      | _ \<Rightarrow> (True, emit (Db Connect) w))"

text \<open>\<open>hash_password\<close>: \<open>salt\<close> is what \<open>bcrypt.gensalt()\<close> returns in this call.\<close>

definition hash_password :: "bcrypt \<Rightarrow> string \<Rightarrow> string \<Rightarrow> exn + string" where
  "hash_password bc salt pw =
     (case hashpw bc pw salt of Inl msg \<Rightarrow> Inl (ValueError msg) | Inr h \<Rightarrow> Inr h)"

definition verify_password :: "bcrypt \<Rightarrow> string \<Rightarrow> string \<Rightarrow> exn + bool" where
  "verify_password bc stored_hash pw =
     (case checkpw bc pw stored_hash of
        None \<Rightarrow> Inl (ValueError ''Invalid salt'')
      | Some b \<Rightarrow> Inr b)"

subsection \<open>Format checks\<close>

text \<open>
  The two regular expressions are kept as terms and run by derivatives. \<open>Chars cs\<close> is
  a character class, \<open>Many\<close> is \<open>*\<close>.
\<close>

datatype pat = Fail | Done | Chars "char list" | Then pat pat | Or pat pat | Many pat

fun accepts_empty :: "pat \<Rightarrow> bool" where
  "accepts_empty Fail = False"
| "accepts_empty Done = True"
| "accepts_empty (Chars cs) = False"
| "accepts_empty (Then p q) = (accepts_empty p \<and> accepts_empty q)"
| "accepts_empty (Or p q) = (accepts_empty p \<or> accepts_empty q)"
| "accepts_empty (Many p) = True"

fun after :: "char \<Rightarrow> pat \<Rightarrow> pat" where
  "after c Fail = Fail"
| "after c Done = Fail"
| "after c (Chars cs) = (if c \<in> set cs then Done else Fail)"
| "after c (Then p q) =
     (if accepts_empty p then Or (Then (after c p) q) (after c q) else Then (after c p) q)"
| "after c (Or p q) = Or (after c p) (after c q)"
| "after c (Many p) = Then (after c p) (Many p)"

fun full_match :: "pat \<Rightarrow> string \<Rightarrow> bool" where
  "full_match p [] = accepts_empty p"
| "full_match p (c # s) = full_match (after c p) s"

text \<open>
  \<open>re.compile("^...$").match(s)\<close>: in Python \<open>$\<close> matches at the end of the string and
  also just before a newline that ends the string.
\<close>

definition re_match :: "pat \<Rightarrow> string \<Rightarrow> bool" where
  "re_match p s =
     (full_match p s \<or> (s \<noteq> [] \<and> last s = CHR 0x0A \<and> full_match p (butlast s)))"

definition some :: "pat \<Rightarrow> pat" where
  "some p = Then p (Many p)"

definition maybe :: "pat \<Rightarrow> pat" where
  "maybe p = Or p Done"

fun exactly :: "nat \<Rightarrow> pat \<Rightarrow> pat" where
  "exactly 0 p = Done"
| "exactly (Suc n) p = Then p (exactly n p)"

definition lower_az :: string where
  "lower_az = ''abcdefghijklmnopqrstuvwxyz''"

definition upper_az :: string where
  "upper_az = ''ABCDEFGHIJKLMNOPQRSTUVWXYZ''"

definition digits :: string where
  "digits = ''0123456789''"

text \<open>\<^verbatim>\<open>^[a-zA-Z0-9._%+-]+@[a-zA-Z0-9.-]+\.[a-zA-Z]{2,}$\<close>\<close>

definition email_regex :: pat where
  "email_regex =
     Then (some (Chars (lower_az @ upper_az @ digits @ ''._%+-'')))
    (Then (Chars ''@'')
    (Then (some (Chars (lower_az @ upper_az @ digits @ ''.-'')))
    (Then (Chars ''.'')
    (Then (exactly 2 (Chars (lower_az @ upper_az))) (Many (Chars (lower_az @ upper_az)))))))"

definition is_valid_email :: "string \<Rightarrow> bool" where
  "is_valid_email e = re_match email_regex e"

text \<open>\<^verbatim>\<open>^\+?[1-9]\d{9}$\<close>\<close>

definition phone_regex :: pat where
  "phone_regex =
     Then (maybe (Chars ''+''))
    (Then (Chars ''123456789'') (exactly 9 (Chars digits)))"

definition is_valid_phone :: "string \<Rightarrow> bool" where
  "is_valid_phone p = re_match phone_regex p"

subsection \<open>Navigation\<close>

definition go_to_register :: "world \<Rightarrow> world" where
  "go_to_register w = w\<lparr>current_page := Register\<rparr>"

definition go_to_login :: "world \<Rightarrow> world" where
  "go_to_login w = w\<lparr>current_page := Login\<rparr>"

definition go_to_main :: "world \<Rightarrow> world" where
  "go_to_main w = w\<lparr>current_page := Main_page\<rparr>"

definition go_to_edit_profile :: "world \<Rightarrow> world" where
  "go_to_edit_profile w = w\<lparr>current_page := Edit_profile\<rparr>"

definition go_to_admin_panel :: "world \<Rightarrow> world" where
  "go_to_admin_panel w = w\<lparr>current_page := Admin_panel\<rparr>"

definition go_to_admin_login :: "world \<Rightarrow> world" where
  "go_to_admin_login w = w\<lparr>current_page := Admin_login\<rparr>"

definition logout :: "world \<Rightarrow> world" where
  "logout w =
     go_to_login (w\<lparr>authenticated := False, session_username := None,
                    admin_authenticated := False, uploaded_file := None\<rparr>)"

subsection \<open>Account operations\<close>

text \<open>
  Each operation opens its own connection (\<open>oc\<close> says how that goes), sends one
  statement and closes the connection. SQL \<open>=\<close> on the text columns is taken as equality
  of strings.
\<close>

definition matches_any :: "string \<Rightarrow> string \<Rightarrow> string \<Rightarrow> user \<Rightarrow> bool" where
  "matches_any u e p r = (username r = u \<or> email r = e \<or> phone_number r = p)"

definition check_existing_user ::
  "db_outcome \<Rightarrow> string \<Rightarrow> string \<Rightarrow> string \<Rightarrow> world \<Rightarrow> bool \<times> world" where
  "check_existing_user oc u e p w =
     (case create_connection oc w of
        (False, w1) \<Rightarrow> (True, w1)
      | (True, w1) \<Rightarrow>
          (let w2 = emit (Db (Execute
                  ''SELECT * FROM users WHERE username = %s OR email = %s OR phone_number = %s'')) w1
           in case oc of
                Execute_fails err \<Rightarrow>
                  (True, emit (Db Close) (st_error (''Database Error: '' @ err) w2))
              | _ \<Rightarrow>
                  (let result = filter (matches_any u e p) (users w2)
                   in (0 < length result, emit (Db Close) w2))))"

text \<open>
  The password is hashed while the tuple of values is built, after the connection is
  open and before the INSERT is sent; an exception of bcrypt closes the connection and
  leaves \<open>register_user\<close>.
\<close>

definition register_user ::
  "bcrypt \<Rightarrow> db_outcome \<Rightarrow> db_outcome \<Rightarrow> string \<Rightarrow>
   string \<Rightarrow> string \<Rightarrow> string \<Rightarrow> string \<Rightarrow> string \<Rightarrow> string \<Rightarrow> world \<Rightarrow>
   ending \<times> world" where
  "register_user bc oc_check oc_insert salt u fn ln em ph pw w =
     (if \<not> is_valid_email em then (Finished, st_error ''Invalid email format!'' w)
      else if \<not> is_valid_phone ph
      then (Finished, st_error ''Invalid phone number format!'' w)
      else
        case check_existing_user oc_check u em ph w of
          (True, w1) \<Rightarrow>
            (Finished, st_error ''Username, email, or phone number already in use!'' w1)
        | (False, w1) \<Rightarrow>
            (case create_connection oc_insert w1 of
               (False, w2) \<Rightarrow> (Finished, st_error ''Unable to connect to the database.'' w2)
             | (True, w2) \<Rightarrow>
                 (case hash_password bc salt pw of
                    Inl x \<Rightarrow> (Raised (exn_text x), emit (Db Close) w2)
                  | Inr hashed \<Rightarrow>
                      (let row = \<lparr>username = u, first_name = fn, last_name = ln, email = em,
                                  phone_number = ph, password = hashed\<rparr>;
                           w3 = emit (Db (Execute ''INSERT INTO users'')) w2
                       in case oc_insert of
                            Execute_fails err \<Rightarrow>
                              (Finished,
                               emit (Db Close) (st_error (''Database Error: '' @ err) w3))
                          | _ \<Rightarrow>
                              (Finished,
                               emit (Db Close)
                                 (go_to_login
                                   (st_success ''Registration successful!''
                                     (emit (Db Commit)
                                       (w3\<lparr>users := users w3 @ [row]\<rparr>)))))))))"

text \<open>\<open>fetchone\<close> hands back the first row of the result, or \<open>None\<close>.\<close>

definition authenticate_user ::
  "bcrypt \<Rightarrow> db_outcome \<Rightarrow> string \<Rightarrow> string \<Rightarrow> world \<Rightarrow> (exn + bool) \<times> world" where
  "authenticate_user bc oc u p w =
     (case create_connection oc w of
        (False, w1) \<Rightarrow> (Inr False, w1)
      | (True, w1) \<Rightarrow>
          (let w2 = emit (Db (Execute ''SELECT * FROM users WHERE username = %s'')) w1
           in case oc of
                Execute_fails err \<Rightarrow>
                  (Inr False, emit (Db Close) (st_error (''Database Error: '' @ err) w2))
              | _ \<Rightarrow>
                  (case find (\<lambda>r. username r = u) (users w2) of
                     None \<Rightarrow> (Inr False, emit (Db Close) w2)
                   | Some row \<Rightarrow>
                       (verify_password bc (password row) p, emit (Db Close) w2))))"

text \<open>
  The administrator's credentials are read from the environment when the script starts;
  without a hash there, the default password is hashed.
\<close>

record config =
  admin_username :: string
  admin_password_hash :: string

definition startup_config ::
  "bcrypt \<Rightarrow> string \<Rightarrow> string option \<Rightarrow> string option \<Rightarrow> exn + config" where
  "startup_config bc salt env_username env_hash =
     (let h = (case env_hash of None \<Rightarrow> [] | Some x \<Rightarrow> x);
          name = (case env_username of None \<Rightarrow> ''RBI'' | Some x \<Rightarrow> x)
      in if h = [] then
           (case hash_password bc salt ''RBI123'' of
              Inl x \<Rightarrow> Inl x
            | Inr hashed \<Rightarrow> Inr \<lparr>admin_username = name, admin_password_hash = hashed\<rparr>)
         else Inr \<lparr>admin_username = name, admin_password_hash = h\<rparr>)"

definition is_admin :: "bcrypt \<Rightarrow> config \<Rightarrow> string \<Rightarrow> string \<Rightarrow> exn + bool" where
  "is_admin bc cfg u p =
     (if u = admin_username cfg then verify_password bc (admin_password_hash cfg) p
      else Inr False)"

definition get_all_users :: "db_outcome \<Rightarrow> world \<Rightarrow> user list \<times> world" where
  "get_all_users oc w =
     (case create_connection oc w of
        (False, w1) \<Rightarrow> ([], w1)
      | (True, w1) \<Rightarrow>
          (let w2 = emit (Db (Execute ''SELECT * FROM users'')) w1
           in case oc of
                Execute_fails err \<Rightarrow>
                  ([], emit (Db Close) (st_error (''Database Error: '' @ err) w2))
              | _ \<Rightarrow> (users w2, emit (Db Close) w2)))"

text \<open>
  \<open>UPDATE users SET ... WHERE username = %s\<close> rewrites every row of that username.
  The argument \<open>password=None\<close> is a \<open>string option\<close>; Python's \<open>if password:\<close> holds
  for a string that is not empty.
\<close>

definition sql_update :: "string \<Rightarrow> (user \<Rightarrow> user) \<Rightarrow> user list \<Rightarrow> user list" where
  "sql_update u f rows = map (\<lambda>r. if username r = u then f r else r) rows"

definition truthy :: "string option \<Rightarrow> bool" where
  "truthy pw = (case pw of None \<Rightarrow> False | Some p \<Rightarrow> p \<noteq> [])"

text \<open>
  With a password, \<open>update_user\<close> hashes it after the connection is open and before
  the UPDATE is sent; an exception of bcrypt closes the connection and leaves
  \<open>update_user\<close>.
\<close>

definition update_user ::
  "bcrypt \<Rightarrow> db_outcome \<Rightarrow> string \<Rightarrow>
   string \<Rightarrow> string \<Rightarrow> string \<Rightarrow> string \<Rightarrow> string \<Rightarrow> string option \<Rightarrow> world \<Rightarrow>
   ending \<times> world" where
  "update_user bc oc salt u fn ln em ph pw w =
     (case create_connection oc w of
        (False, w1) \<Rightarrow> (Finished, st_error ''Unable to connect to the database.'' w1)
      | (True, w1) \<Rightarrow>
          (let statement =
                 (case pw of
                    Some p \<Rightarrow>
                      if p \<noteq> [] then
                        (case hash_password bc salt p of
                           Inl x \<Rightarrow> Inl x
                         | Inr hashed_password \<Rightarrow>
                             Inr (''UPDATE users SET first_name, last_name, email, phone_number, password'',
                                  \<lambda>r. r\<lparr>first_name := fn, last_name := ln, email := em,
                                         phone_number := ph, password := hashed_password\<rparr>))
                      else
                        Inr (''UPDATE users SET first_name, last_name, email, phone_number'',
                             \<lambda>r. r\<lparr>first_name := fn, last_name := ln, email := em,
                                    phone_number := ph\<rparr>)
                  | None \<Rightarrow>
                      Inr (''UPDATE users SET first_name, last_name, email, phone_number'',
                           \<lambda>r. r\<lparr>first_name := fn, last_name := ln, email := em,
                                  phone_number := ph\<rparr>))
           in case statement of
                Inl x \<Rightarrow> (Raised (exn_text x), emit (Db Close) w1)
              | Inr (sql, assign) \<Rightarrow>
                  (let w2 = emit (Db (Execute sql)) w1
                   in case oc of
                        Execute_fails err \<Rightarrow>
                          (Finished, emit (Db Close) (st_error (''Database Error: '' @ err) w2))
                      | _ \<Rightarrow>
                          (Finished,
                           emit (Db Close)
                             (st_success ''User updated successfully!''
                               (emit (Db Commit)
                                 (w2\<lparr>users := sql_update u assign (users w2)\<rparr>)))))))"

definition delete_user :: "db_outcome \<Rightarrow> string \<Rightarrow> world \<Rightarrow> world" where
  "delete_user oc u w =
     (case create_connection oc w of
        (False, w1) \<Rightarrow> st_error ''Unable to connect to the database.'' w1
      | (True, w1) \<Rightarrow>
          (let w2 = emit (Db (Execute ''DELETE FROM users WHERE username = %s'')) w1
           in case oc of
                Execute_fails err \<Rightarrow>
                  emit (Db Close) (st_error (''Database Error: '' @ err) w2)
              | _ \<Rightarrow>
                  emit (Db Close)
                    (st_success ''User deleted successfully!''
                      (emit (Db Commit)
                        (w2\<lparr>users := filter (\<lambda>r. username r \<noteq> u) (users w2)\<rparr>)))))"

section \<open>The dashboard and the page router\<close>

text \<open>
  Code that only displays (reading the upload, the analysis of a table) is modelled by
  the list of events it emits, in program order; code that also changes the session or
  the table passes the whole state.
\<close>

definition emit_all :: "event list \<Rightarrow> world \<Rightarrow> world" where
  "emit_all es w = w\<lparr>trace := trace w @ es\<rparr>"

definition widgets :: "string list \<Rightarrow> world \<Rightarrow> world" where
  "widgets labels = emit_all (map Widget labels)"

subsection \<open>Uploads\<close>

text \<open>\<open>str.lower\<close> on code points below 256.\<close>

definition lower_char :: "char \<Rightarrow> char" where
  "lower_char c =
     (let n = of_char c :: nat
      in if (65 \<le> n \<and> n \<le> 90) \<or> (192 \<le> n \<and> n \<le> 222 \<and> n \<noteq> 215)
         then char_of (n + 32) else c)"

definition lower :: "string \<Rightarrow> string" where
  "lower s = map lower_char s"

text \<open>
  \<open>os.path.splitext(p)[1]\<close> with POSIX separators: the part of the last path
  component from its last dot on, leading dots of the component not counting.
\<close>

definition splitext_ext :: "string \<Rightarrow> string" where
  "splitext_ext p =
     (let base = rev (takeWhile (\<lambda>c. c \<noteq> CHR ''/'') (rev p));
          stem = dropWhile (\<lambda>c. c = CHR ''.'') base
      in if CHR ''.'' \<in> set stem
         then CHR ''.'' # rev (takeWhile (\<lambda>c. c \<noteq> CHR ''.'') (rev stem))
         else [])"

text \<open>
  \<open>st.file_uploader(label, type=[...])\<close> is Streamlit's, not the script's. It is
  modelled here from Streamlit's own check of the \<open>type\<close> argument: a file the user
  offers reaches the script when its name, in lower case, ends with a dot and one of
  the listed extensions; otherwise the widget returns \<open>None\<close>.
\<close>

definition endswith :: "string \<Rightarrow> string \<Rightarrow> bool" where
  "endswith s suffix =
     (length suffix \<le> length s \<and> drop (length s - length suffix) s = suffix)"

definition file_uploader :: "string list \<Rightarrow> upload option \<Rightarrow> upload option" where
  "file_uploader types offered =
     (case offered of
        None \<Rightarrow> None
      | Some f \<Rightarrow>
          if list_ex (\<lambda>t. endswith (lower (name f)) (CHR ''.'' # lower t)) types
          then Some f else None)"

definition detect_encoding :: "upload \<Rightarrow> string option" where
  "detect_encoding f = encoding f"

text \<open>The \<open>try\<close>/\<open>except\<close> around the pandas readers.\<close>

definition guarded_read :: "read_result \<Rightarrow> dataframe option \<times> event list" where
  "guarded_read r =
     (case r of
        Parsed df \<Rightarrow> (Some df, [])
      | Parser_error \<Rightarrow>
          (None, [StError ''Error parsing the file. Please check the file format.''])
      | Other_error e \<Rightarrow> (None, [StError (''Error reading file: '' @ e)]))"

text \<open>\<open>read_file\<close> as the main page defines it, by the extension of the file name.\<close>

definition read_file :: "upload \<Rightarrow> dataframe option \<times> event list" where
  "read_file f =
     (let file_extension = lower (splitext_ext (name f));
          shown = [StWrite (''Uploaded file extension: '' @ file_extension)]
      in if file_extension = ''.csv'' then
           (let (df, es) = guarded_read (as_csv f (detect_encoding f)) in (df, shown @ es))
         else if file_extension \<in> set [''.xls'', ''.xlsx''] then
           (let (df, es) = guarded_read (as_excel f) in (df, shown @ es))
         else
           (None,
            shown @ [StError ''Unsupported file type. Please upload a CSV or Excel file.'']))"

text \<open>
  \<open>read_file\<close> as the module defines it, by MIME type; the main page's definition
  shadows it.
\<close>

definition read_file_module :: "upload \<Rightarrow> dataframe option \<times> event list" where
  "read_file_module f =
     (if mime f = ''text/csv'' then guarded_read (as_csv f (detect_encoding f))
      else if mime f = ''application/vnd.openxmlformats-officedocument.spreadsheetml.sheet''
      then guarded_read (as_excel f)
      else (None, [StError ''Unsupported file type.'']))"

subsection \<open>The analysis of a table\<close>

definition df_empty :: "dataframe \<Rightarrow> bool" where
  "df_empty df = (columns df = [] \<or> nrows df = 0)"

fun is_number :: "dtype \<Rightarrow> bool" where
  "is_number Int64 = True"
| "is_number Float64 = True"
| "is_number (Number n) = True"
| "is_number Object = False"
| "is_number (Non_number n) = False"

fun dtype_name :: "dtype \<Rightarrow> string" where
  "dtype_name Object = ''object''"
| "dtype_name Int64 = ''int64''"
| "dtype_name Float64 = ''float64''"
| "dtype_name (Number n) = n"
| "dtype_name (Non_number n) = n"

fun show_nat :: "nat \<Rightarrow> string" where
  "show_nat n =
     (if n < 10 then [char_of (48 + n)]
      else show_nat (n div 10) @ [char_of (48 + n mod 10)])"

declare show_nat.simps [simp del]

definition numeric_columns :: "dataframe \<Rightarrow> string list" where
  "numeric_columns df = map fst (filter (\<lambda>ct. is_number (snd ct)) (columns df))"

definition heatmap_message :: string where
  "heatmap_message = ''No numeric columns found in the dataset to generate a heatmap.''"

text \<open>
  The analysis is a list of steps run in order. A step emits its events, or one of the
  library calls in it raises and the steps after it are not run.
\<close>

definition emits :: "event list \<Rightarrow> ending \<times> event list" where
  "emits es = (Finished, es)"

definition attempt :: "dataframe \<Rightarrow> display \<Rightarrow> event list \<Rightarrow> ending \<times> event list" where
  "attempt df d es = (case raises df d of None \<Rightarrow> (Finished, es) | Some msg \<Rightarrow> (Raised msg, []))"

fun in_order :: "(ending \<times> event list) list \<Rightarrow> ending \<times> event list" where
  "in_order [] = (Finished, [])"
| "in_order ((Finished, es) # rest) = (case in_order rest of (e, es') \<Rightarrow> (e, es @ es'))"
| "in_order ((e, es) # rest) = (e, es)"

definition heatmap_step :: "dataframe \<Rightarrow> ending \<times> event list" where
  "heatmap_step df =
     (if 0 < length (numeric_columns df)
      then attempt df Correlation [StPlotly (Heatmap (numeric_columns df))]
      else emits [StError heatmap_message])"

datatype plot_type = Bar_chart | Line_chart | Scatter_plot | Pie_chart

record main_inputs =
  edit_profile_button :: bool
  logout_button :: bool
  offered_file :: "upload option"
  show_data_dimensions :: bool
  show_field_descriptions :: bool
  show_summary_statistics :: bool
  show_value_counts :: bool
  plot_type :: plot_type
  x_choice :: nat
  y_choice :: nat

text \<open>
  \<open>st.selectbox\<close> over a list that is not empty: the option the user picked, the first
  one by default.
\<close>

definition selectbox :: "'a list \<Rightarrow> nat \<Rightarrow> 'a" where
  "selectbox options i = options ! (if i < length options then i else 0)"

definition option_steps :: "main_inputs \<Rightarrow> dataframe \<Rightarrow> ending \<times> event list" where
  "option_steps inp df =
     in_order
       [if show_data_dimensions inp
        then emits [StWrite (''Data Dimensions: ('' @ show_nat (nrows df) @ '', '' @
                             show_nat (length (columns df)) @ '')'')]
        else emits [],
        if show_field_descriptions inp
        then in_order
               (emits [StWrite ''Field Descriptions:''] #
                map (\<lambda>ct. attempt df (Field_type (fst ct))
                             [StWrite (''- **'' @ fst ct @ ''**: '' @ dtype_name (snd ct))])
                  (columns df))
        else emits [],
        if show_summary_statistics inp
        then in_order [emits [StWrite ''Summary Statistics:''],
                       attempt df Summary [StData ''df.describe()'']]
        else emits [],
        if show_value_counts inp
        then in_order
               (emits [StWrite ''Value Counts of Fields:''] #
                concat (map (\<lambda>ct. [emits [StWrite (''**'' @ fst ct @ ''**:'')],
                                    attempt df (Counts (fst ct))
                                      [StData (''df['' @ fst ct @ ''].value_counts()'')]])
                         (columns df)))
        else emits []]"

text \<open>
  The chart the user selected. Column names of a table pandas has read are unique, so a
  selected column is taken with its dtype.
\<close>

definition pie_message :: string where
  "pie_message =
     ''Pie chart requires categorical. data for 'names' and numerical data for 'values'.''"

definition show_figure :: "dataframe \<Rightarrow> chart \<Rightarrow> ending \<times> event list" where
  "show_figure df c = in_order [attempt df Figure [], attempt df Show_figure [StPlotly c]]"

definition plot_steps :: "main_inputs \<Rightarrow> dataframe \<Rightarrow> ending \<times> event list" where
  "plot_steps inp df =
     (if 0 < length (columns df) then
        (let (x_col, x_dtype) = selectbox (columns df) (x_choice inp);
             (y_col, y_dtype) = selectbox (columns df) (y_choice inp)
         in in_order
              [emits [Widget ''Select X-axis column'', Widget ''Select Y-axis column''],
               case plot_type inp of
                 Bar_chart \<Rightarrow> show_figure df (Bar x_col y_col)
               | Line_chart \<Rightarrow> show_figure df (Line x_col y_col)
               | Scatter_plot \<Rightarrow> show_figure df (Scatter x_col y_col)
               | Pie_chart \<Rightarrow>
                   in_order
                     [attempt df Column_dtype [],
                      if x_dtype = Object \<and> y_dtype \<in> set [Int64, Float64]
                      then show_figure df (Pie x_col y_col)
                      else emits [StError pie_message]]])
      else emits [StError ''No columns found in the dataset.''])"

text \<open>Everything the analysis does before the chart.\<close>

definition before_plot :: "main_inputs \<Rightarrow> dataframe \<Rightarrow> ending \<times> event list" where
  "before_plot inp df =
     in_order
       [attempt df Preview [StWrite ''### Data Preview'', StData ''df.head()''],
        heatmap_step df,
        emits [StSubheader ''Options'', Widget ''Show Data Dimensions'',
               Widget ''Show Field Descriptions'', Widget ''Show Summary Statistics'',
               Widget ''Show Value Counts of Fields'', Widget ''Select plot type''],
        option_steps inp df]"

definition analysis :: "main_inputs \<Rightarrow> dataframe \<Rightarrow> ending \<times> event list" where
  "analysis inp df = in_order [before_plot inp df, plot_steps inp df]"

text \<open>
  The part of the main page from the uploader on: the table is analysed only when the
  uploader hands over a file, the file reads into a table, and the table is not empty.
\<close>

definition dashboard :: "main_inputs \<Rightarrow> ending \<times> event list" where
  "dashboard inp =
     (let uploaded = file_uploader [''csv'', ''xlsx''] (offered_file inp);
          (df, read_events) = (case uploaded of Some f \<Rightarrow> read_file f | None \<Rightarrow> (None, []))
      in in_order
           [emits (Widget ''Upload a CSV or Excel file'' # read_events),
            case df of
              Some d \<Rightarrow>
                if \<not> df_empty d then analysis inp d
                else emits [StWrite ''Upload a file to start the analysis.'']
            | None \<Rightarrow> emits [StWrite ''Upload a file to start the analysis.'']])"

subsection \<open>Pages\<close>

text \<open>
  One pass of the script gets the widget values of this rerun (\<open>inputs\<close>) and what the
  environment will do (\<open>env\<close>: bcrypt, the administrator's credentials, the salt drawn,
  and the outcome of each connection the pass may open). A button with an
  \<open>on_click\<close> callback is only rendered by the pass; Streamlit runs the callback
  before the pass starts.
\<close>

record env =
  crypt :: bcrypt
  cfg :: config
  gensalt :: string
  oc_first :: db_outcome
  oc_check :: db_outcome
  oc_insert :: db_outcome
  oc_update :: db_outcome
  oc_delete :: db_outcome

record register_inputs =
  new_username :: string
  new_name :: string
  new_last_name :: string
  new_email :: string
  new_phone :: string
  new_password :: string
  confirm_password :: string
  register_button :: bool
  register_admin_login_redirect :: bool

definition register_page :: "env \<Rightarrow> register_inputs \<Rightarrow> world \<Rightarrow> ending \<times> world" where
  "register_page ev inp w =
     (let w1 = widgets [''New Username'', ''First Name'', ''Last Name'', ''Email'', ''Phone'',
                        ''New Password'', ''Confirm Password'', ''Register'']
                 (emit (StHeader ''Register'') w)
      in and_then
           (if register_button inp then
              if \<not> (new_username inp \<noteq> [] \<and> new_name inp \<noteq> [] \<and> new_last_name inp \<noteq> []
                    \<and> new_email inp \<noteq> [] \<and> new_phone inp \<noteq> [] \<and> new_password inp \<noteq> []
                    \<and> confirm_password inp \<noteq> [])
              then (Finished, st_error ''All fields are required.'' w1)
              else if new_password inp \<noteq> confirm_password inp
              then (Finished, st_error ''Passwords do not match.'' w1)
              else if \<not> is_valid_email (new_email inp)
              then (Finished, st_error ''Invalid email address.'' w1)
              else if \<not> is_valid_phone (new_phone inp)
              then (Finished, st_error ''Invalid phone number.'' w1)
              else
                case check_existing_user (oc_first ev) (new_username inp) (new_email inp)
                       (new_phone inp) w1 of
                  (True, w') \<Rightarrow>
                    (Finished, st_error ''Username, email, or phone number already in use.'' w')
                | (False, w') \<Rightarrow>
                    register_user (crypt ev) (oc_check ev) (oc_insert ev) (gensalt ev)
                      (new_username inp) (new_name inp) (new_last_name inp) (new_email inp)
                      (new_phone inp) (new_password inp) w'
            else (Finished, w1))
           (\<lambda>w2. let w3 = widgets [''Already have an account? Login here'', ''Admin Login''] w2
                 in (Finished,
                     if register_admin_login_redirect inp then go_to_admin_login w3 else w3)))"

record login_inputs =
  login_username :: string
  login_password :: string
  login_button :: bool
  login_admin_login_redirect :: bool

definition login_page :: "env \<Rightarrow> login_inputs \<Rightarrow> world \<Rightarrow> ending \<times> world" where
  "login_page ev inp w =
     (let w1 = widgets [''Username'', ''Password'', ''Login''] (emit (StHeader ''Login'') w);
          (e, w2) =
            (if login_button inp then
               if \<not> (login_username inp \<noteq> [] \<and> login_password inp \<noteq> [])
               then (Finished, st_error ''Username and password are required.'' w1)
               else
                 case authenticate_user (crypt ev) (oc_first ev) (login_username inp)
                        (login_password inp) w1 of
                   (Inl x, w') \<Rightarrow> (Raised (exn_text x), w')
                 | (Inr True, w') \<Rightarrow>
                     (Finished,
                      go_to_main
                        (st_success (''Welcome, '' @ login_username inp @ ''!'')
                          (w'\<lparr>authenticated := True,
                               session_username := Some (login_username inp)\<rparr>)))
                 | (Inr False, w') \<Rightarrow> (Finished, st_error ''Invalid username or password'' w')
             else (Finished, w1))
      in case e of
           Finished \<Rightarrow>
             (let w3 = widgets [''Don't have an account? Register here'', ''Admin Login''] w2
              in (Finished, if login_admin_login_redirect inp then go_to_admin_login w3 else w3))
         | _ \<Rightarrow> (e, w2))"

record admin_login_inputs =
  admin_username_input :: string
  admin_password_input :: string
  admin_login_button :: bool

definition admin_login_page ::
  "env \<Rightarrow> admin_login_inputs \<Rightarrow> world \<Rightarrow> ending \<times> world" where
  "admin_login_page ev inp w =
     (let w1 = widgets [''Admin Username'', ''Admin Password'', ''Login as Admin'']
                 (emit (StHeader ''Admin Login'') w);
          (e, w2) =
            (if admin_login_button inp then
               if \<not> (admin_username_input inp \<noteq> [] \<and> admin_password_input inp \<noteq> [])
               then (Finished, st_error ''Username and password are required.'' w1)
               else
                 case is_admin (crypt ev) (cfg ev) (admin_username_input inp)
                        (admin_password_input inp) of
                   Inl x \<Rightarrow> (Raised (exn_text x), w1)
                 | Inr True \<Rightarrow> (Finished, go_to_admin_panel (w1\<lparr>admin_authenticated := True\<rparr>))
                 | Inr False \<Rightarrow> (Finished, st_error ''Invalid admin username or password'' w1)
             else (Finished, w1))
      in case e of
           Finished \<Rightarrow> (Finished, widgets [''Back to Login''] w2)
         | _ \<Rightarrow> (e, w2))"

text \<open>
  The guards of the three protected pages: a warning and a change of page, after which
  the script goes on with the page.
\<close>

definition login_warning :: string where
  "login_warning = ''You need to be logged in to access this page.''"

definition admin_warning :: string where
  "admin_warning = ''You need to be logged in as an admin to access this page.''"

definition login_guard :: "world \<Rightarrow> world" where
  "login_guard w = (if \<not> authenticated w then go_to_login (st_warning login_warning w) else w)"

definition admin_guard :: "world \<Rightarrow> world" where
  "admin_guard w =
     (if \<not> admin_authenticated w then go_to_admin_login (st_warning admin_warning w) else w)"

definition str_option :: "string option \<Rightarrow> string" where
  "str_option x = (case x of None \<Rightarrow> ''None'' | Some s \<Rightarrow> s)"

definition style_html :: "string \<Rightarrow> string" where
  "style_html th =
     ''<style>body {background-color: '' @ (if th = ''dark'' then ''#333'' else ''#fff'') @
     ''; color: '' @ (if th = ''dark'' then ''#eee'' else ''#000'') @ '';}</style>''"

definition main_body :: "main_inputs \<Rightarrow> world \<Rightarrow> ending \<times> world" where
  "main_body inp w =
     (let th = (case theme w of None \<Rightarrow> ''light'' | Some t \<Rightarrow> t);
          w1 = emit_all
                 [StWrite (style_html th),
                  StMarkdown '':bar_chart: Dynamic Data Analysis Dashboard'',
                  StTitle (''Welcome, '' @ str_option (session_username w) @ ''!''),
                  StWrite ''<div style='text-align: right;'>'',
                  Widget ''Edit Profile''] w;
          w2 = (if edit_profile_button inp then go_to_edit_profile w1 else w1);
          w3 = emit_all
                 [StWrite ''</div>'', StWrite ''<div style='text-align: right;'>'',
                  Widget ''Logout''] w2;
          w4 = (if logout_button inp then logout w3 else w3);
          w5 = emit (StWrite ''</div>'') w4;
          w6 = (case file_uploader [''csv'', ''xlsx''] (offered_file inp) of
                  Some f \<Rightarrow> w5\<lparr>uploaded_file := Some f\<rparr>
                | None \<Rightarrow> w5);
          (e, es) = dashboard inp
      in (e, emit_all es w6))"

definition main_page :: "main_inputs \<Rightarrow> world \<Rightarrow> ending \<times> world" where
  "main_page inp w = main_body inp (login_guard w)"

record edit_inputs =
  edit_first_name :: "string option"
  edit_last_name :: "string option"
  edit_email :: "string option"
  edit_phone :: "string option"
  edit_password :: string
  edit_confirm_password :: string
  save_changes_button :: bool

text \<open>\<open>st.text_input(label, value=default)\<close>: what the user typed, else the default.\<close>

definition text_input :: "string \<Rightarrow> string option \<Rightarrow> string" where
  "text_input shown typed = (case typed of None \<Rightarrow> shown | Some v \<Rightarrow> v)"

definition edit_profile_form ::
  "env \<Rightarrow> edit_inputs \<Rightarrow> string \<Rightarrow> user \<Rightarrow> world \<Rightarrow> ending \<times> world" where
  "edit_profile_form ev inp current_user row w =
     (let w1 = widgets [''First Name'', ''Last Name'', ''Email'', ''Phone'', ''New Password'',
                        ''Confirm Password'', ''Save Changes''] w
      in if save_changes_button inp then
           if edit_password inp \<noteq> [] \<and> edit_password inp \<noteq> edit_confirm_password inp
           then (Finished, st_error ''Passwords do not match.'' w1)
           else update_user (crypt ev) (oc_update ev) (gensalt ev) current_user
                  (text_input (first_name row) (edit_first_name inp))
                  (text_input (last_name row) (edit_last_name inp))
                  (text_input (email row) (edit_email inp))
                  (text_input (phone_number row) (edit_phone inp))
                  (Some (edit_password inp)) w1
         else (Finished, w1))"

text \<open>
  A session without a username sends \<open>NULL\<close>, which no row matches. The page's
  connection is closed in a \<open>finally\<close>, also when an exception passes through.
\<close>

definition edit_profile_body :: "env \<Rightarrow> edit_inputs \<Rightarrow> world \<Rightarrow> ending \<times> world" where
  "edit_profile_body ev inp w =
     (let w1 = emit (StHeader ''Edit Profile'') w;
          current_user = session_username w1
      in and_then
           (case create_connection (oc_first ev) w1 of
              (False, w') \<Rightarrow> (Finished, w')
            | (True, w') \<Rightarrow>
                (let w'' = emit (Db (Execute ''SELECT * FROM users WHERE username = %s'')) w';
                     (e, w3) =
                       (case oc_first ev of
                          Execute_fails err \<Rightarrow>
                            (Finished, st_error (''Database Error: '' @ err) w'')
                        | _ \<Rightarrow>
                            (case current_user of
                               None \<Rightarrow> (Finished, st_error ''USer not found.'' w'')
                             | Some u \<Rightarrow>
                                 (case find (\<lambda>r. username r = u) (users w'') of
                                    None \<Rightarrow> (Finished, st_error ''USer not found.'' w'')
                                  | Some row \<Rightarrow> edit_profile_form ev inp u row w'')))
                 in (e, emit (Db Close) w3)))
           (\<lambda>w2. (Finished, widgets [''Back to Dashboard''] w2)))"

definition edit_profile_page :: "env \<Rightarrow> edit_inputs \<Rightarrow> world \<Rightarrow> ending \<times> world" where
  "edit_profile_page ev inp w = edit_profile_body ev inp (login_guard w)"

record admin_inputs =
  selected_user :: nat
  admin_first_name :: "string option"
  admin_last_name :: "string option"
  admin_email :: "string option"
  admin_phone :: "string option"
  admin_new_password :: string
  admin_confirm_password :: string
  update_user_button :: bool
  delete_user_button :: bool
  yes_delete_button :: bool
  no_cancel_button :: bool
  admin_logout_button :: bool

definition admin_update_step ::
  "env \<Rightarrow> admin_inputs \<Rightarrow> string \<Rightarrow> user \<Rightarrow> world \<Rightarrow> ending \<times> world" where
  "admin_update_step ev inp selected_username row w =
     (let w1 = widgets [''First Name'', ''Last Name'', ''Email'', ''Phone'',
                        ''New Password (leave blank to keep current)'',
                        ''Confirm New Password'', ''Update User''] w
      in if update_user_button inp then
           if admin_new_password inp \<noteq> []
              \<and> admin_new_password inp \<noteq> admin_confirm_password inp
           then (Finished, st_error ''Passwords do not match.'' w1)
           else update_user (crypt ev) (oc_update ev) (gensalt ev) selected_username
                  (text_input (first_name row) (admin_first_name inp))
                  (text_input (last_name row) (admin_last_name inp))
                  (text_input (email row) (admin_email inp))
                  (text_input (phone_number row) (admin_phone inp))
                  (Some (admin_new_password inp)) w1
         else (Finished, w1))"

definition delete_question :: "string \<Rightarrow> string" where
  "delete_question selected_username =
     ''Are you sure you want to delete the user '' @ [CHR 0x27] @ selected_username @
     [CHR 0x27] @ ''? This action cannot be undone.''"

definition admin_delete_step ::
  "env \<Rightarrow> admin_inputs \<Rightarrow> string \<Rightarrow> world \<Rightarrow> ending \<times> world" where
  "admin_delete_step ev inp selected_username w =
     (let w1 = widgets [''Delete User''] w;
          w2 = (if delete_user_button inp then w1\<lparr>confirm_delete := Some True\<rparr> else w1)
      in if confirm_delete w2 = Some True then
           (let w3 = widgets [''Yes, delete user'']
                       (st_warning (delete_question selected_username) w2)
            in if yes_delete_button inp then
                 (Rerun, (delete_user (oc_delete ev) selected_username w3)
                           \<lparr>confirm_delete := Some False\<rparr>)
               else
                 (let w4 = widgets [''No, cancel''] w3
                  in (Finished,
                      if no_cancel_button inp then w4\<lparr>confirm_delete := Some False\<rparr> else w4)))
         else (Finished, w2))"

definition admin_panel_body :: "env \<Rightarrow> admin_inputs \<Rightarrow> world \<Rightarrow> ending \<times> world" where
  "admin_panel_body ev inp w =
     (let (rows, w1) = get_all_users (oc_first ev) (emit (StHeader ''Admin Panel'') w)
      in if rows \<noteq> [] then
           (let w2 = emit_all [StWrite ''### User List'', StData ''user_df'',
                               Widget ''Select a user to edit''] w1;
                selected_username = selectbox (map username rows) (selected_user inp)
            in case find (\<lambda>r. username r = selected_username) rows of
                 None \<Rightarrow> (Raised ''single positional indexer is out-of-bounds'', w2)
               | Some row \<Rightarrow>
                   and_then
                     (and_then (admin_update_step ev inp selected_username row w2)
                        (admin_delete_step ev inp selected_username))
                     (\<lambda>w3. let w4 = widgets [''Logout''] w3
                           in (Finished, if admin_logout_button inp then logout w4 else w4)))
         else (Finished, w1))"

definition admin_panel_page :: "env \<Rightarrow> admin_inputs \<Rightarrow> world \<Rightarrow> ending \<times> world" where
  "admin_panel_page ev inp w = admin_panel_body ev inp (admin_guard w)"

subsection \<open>The router\<close>

record inputs =
  on_register :: register_inputs
  on_login :: login_inputs
  on_admin_login :: admin_login_inputs
  on_main :: main_inputs
  on_edit_profile :: edit_inputs
  on_admin_panel :: admin_inputs

text \<open>
  The handler around the router: an exception becomes a message and the pass is over.
\<close>

definition handler :: "ending \<times> world \<Rightarrow> ending \<times> world" where
  "handler r =
     (case r of
        (Raised msg, w) \<Rightarrow> (Finished, st_error (''An error occurred: '' @ msg) w)
      | (e, w) \<Rightarrow> (e, w))"

text \<open>One pass through the \<open>if\<close>/\<open>elif\<close> chain on \<open>st.session_state.page\<close>.\<close>

definition render :: "env \<Rightarrow> inputs \<Rightarrow> world \<Rightarrow> ending \<times> world" where
  "render ev inp w =
     handler
       (case current_page w of
          Register \<Rightarrow> register_page ev (on_register inp) w
        | Login \<Rightarrow> login_page ev (on_login inp) w
        | Admin_login \<Rightarrow> admin_login_page ev (on_admin_login inp) w
        | Main_page \<Rightarrow> main_page (on_main inp) w
        | Edit_profile \<Rightarrow> edit_profile_page ev (on_edit_profile inp) w
        | Admin_panel \<Rightarrow> admin_panel_page ev (on_admin_panel inp) w)"

subsection \<open>Reading the trace, and sample data\<close>

definition new_events :: "world \<Rightarrow> world \<Rightarrow> event list" where
  "new_events w w' = drop (length (trace w)) (trace w')"

fun errors_in :: "event list \<Rightarrow> string list" where
  "errors_in [] = []"
| "errors_in (StError m # es) = m # errors_in es"
| "errors_in (e # es) = errors_in es"

fun db_events_in :: "event list \<Rightarrow> db_event list" where
  "db_events_in [] = []"
| "db_events_in (Db d # es) = d # db_events_in es"
| "db_events_in (e # es) = db_events_in es"

fun charts_in :: "event list \<Rightarrow> chart list" where
  "charts_in [] = []"
| "charts_in (StPlotly c # es) = c # charts_in es"
| "charts_in (e # es) = charts_in es"



text \<open>
  Two states that differ only in what the guards look at and set (the two
  authentication flags and the current page), and whose traces are the same behind a
  prefix \<open>pre\<close> of the first.
\<close>

definition same_but_guard :: "event list \<Rightarrow> world \<Rightarrow> world \<Rightarrow> bool" where
  "same_but_guard pre w1 w2 =
     (users w1 = users w2 \<and> session_username w1 = session_username w2 \<and>
      uploaded_file w1 = uploaded_file w2 \<and> confirm_delete w1 = confirm_delete w2 \<and>
      theme w1 = theme w2 \<and> trace w1 = pre @ trace w2)"

text \<open>Two passes that end the same way in two such states.\<close>

definition alike :: "event list \<Rightarrow> ending \<times> world \<Rightarrow> ending \<times> world \<Rightarrow> bool" where
  "alike pre r1 r2 = (fst r1 = fst r2 \<and> same_but_guard pre (snd r1) (snd r2))"

text \<open>No two accounts share a username, an email address or a phone number.\<close>

definition unique_accounts :: "user list \<Rightarrow> bool" where
  "unique_accounts rows =
     (distinct (map username rows) \<and> distinct (map email rows) \<and>
      distinct (map phone_number rows))"

text \<open>
  A stand-in for bcrypt that puts the salt at the head of its output, as bcrypt does,
  and rejects passwords of more than 72 characters, with four-character salts; and a
  table with one account whose password is \<open>pw\<close>.
\<close>

definition demo_bcrypt :: bcrypt where
  "demo_bcrypt =
     \<lparr>hashpw = (\<lambda>p s. if 72 < length p
                        then Inl ''password cannot be longer than 72 bytes''
                        else Inr (s @ rev p)),
      checkpw = (\<lambda>p h. if length h < 4 then None else Some (drop 4 h = rev p))\<rparr>"

definition alice :: user where
  "alice = \<lparr>username = ''alice'', first_name = ''Alice'', last_name = ''Liddell'',
            email = ''alice@example.com'', phone_number = ''9123456789'',
            password = ''s4ltwp''\<rparr>"

definition fresh_session :: "user list \<Rightarrow> world" where
  "fresh_session rows =
     \<lparr>users = rows, authenticated = False, session_username = None,
      admin_authenticated = False, current_page = Register, uploaded_file = None,
      confirm_delete = None, theme = None, trace = []\<rparr>"


definition sales :: dataframe where
  "sales = \<lparr>columns = [(''region'', Object), (''units'', Int64),
                        (''share'', Number ''float32'')], nrows = 12,
             raises = (\<lambda>d. None)\<rparr>"


definition long_password :: string where
  "long_password = replicate 73 CHR ''a''"


definition excel_upload :: "string \<Rightarrow> dataframe \<Rightarrow> upload" where
  "excel_upload n df =
     \<lparr>name = n, mime = ''application/vnd.ms-excel'', encoding = None,
      as_csv = (\<lambda>enc. Parser_error), as_excel = Parsed df\<rparr>"

definition quiet_main :: main_inputs where
  "quiet_main =
     \<lparr>edit_profile_button = False, logout_button = False, offered_file = None,
      show_data_dimensions = False, show_field_descriptions = False,
      show_summary_statistics = False, show_value_counts = False,
      plot_type = Bar_chart, x_choice = 0, y_choice = 0\<rparr>"

definition quiet_inputs :: inputs where
  "quiet_inputs =
     \<lparr>on_register =
        \<lparr>new_username = [], new_name = [], new_last_name = [], new_email = [],
         new_phone = [], new_password = [], confirm_password = [],
         register_button = False, register_admin_login_redirect = False\<rparr>,
      on_login =
        \<lparr>login_username = [], login_password = [], login_button = False,
         login_admin_login_redirect = False\<rparr>,
      on_admin_login =
        \<lparr>admin_username_input = [], admin_password_input = [], admin_login_button = False\<rparr>,
      on_main = quiet_main,
      on_edit_profile =
        \<lparr>edit_first_name = None, edit_last_name = None, edit_email = None,
         edit_phone = None, edit_password = [], edit_confirm_password = [],
         save_changes_button = False\<rparr>,
      on_admin_panel =
        \<lparr>selected_user = 0, admin_first_name = None, admin_last_name = None,
         admin_email = None, admin_phone = None, admin_new_password = [],
         admin_confirm_password = [], update_user_button = False,
         delete_user_button = False, yes_delete_button = False, no_cancel_button = False,
         admin_logout_button = False\<rparr>\<rparr>"

definition demo_env :: env where
  "demo_env =
     \<lparr>crypt = demo_bcrypt,
      cfg = \<lparr>admin_username = ''RBI'', admin_password_hash = ''s4lt321IBR''\<rparr>,
      gensalt = ''n3wS'', oc_first = Succeeds, oc_check = Succeeds, oc_insert = Succeeds,
      oc_update = Succeeds, oc_delete = Succeeds\<rparr>"

section \<open>Properties of the account operations\<close>

subsection \<open>Bookkeeping\<close>

lemma trace_emit [simp]: "trace (emit e w) = trace w @ [e]"
  by (simp add: emit_def)

lemma users_emit [simp]: "users (emit e w) = users w"
  by (simp add: emit_def)

lemma users_go_to_login [simp]: "users (go_to_login w) = users w"
  by (simp add: go_to_login_def)

lemma trace_go_to_login [simp]: "trace (go_to_login w) = trace w"
  by (simp add: go_to_login_def)

lemmas st_defs = st_error_def st_warning_def st_success_def st_write_def

lemma create_connection_simps [simp]:
  "create_connection Succeeds w = (True, emit (Db Connect) w)"
  "create_connection (Execute_fails e) w = (True, emit (Db Connect) w)"
  "create_connection (Connect_fails e) w =
     (False, st_error (''Database connection error: '' @ e) w)"
  by (simp_all add: create_connection_def)

lemma errors_in_append [simp]: "errors_in (xs @ ys) = errors_in xs @ errors_in ys"
  by (induction xs rule: errors_in.induct) simp_all

lemma db_events_in_append [simp]:
  "db_events_in (xs @ ys) = db_events_in xs @ db_events_in ys"
  by (induction xs rule: db_events_in.induct) simp_all

lemma find_distinct:
  "distinct (map f xs) \<Longrightarrow> r \<in> set xs \<Longrightarrow> find (\<lambda>x. f x = f r) xs = Some r"
  by (induction xs) (auto simp: rev_image_eqI)

lemma find_SomeD: "find P xs = Some r \<Longrightarrow> r \<in> set xs \<and> P r"
  by (induction xs) (auto split: if_splits)

lemma valid_email_example: "is_valid_email ''bob@example.com''"
  by code_simp

lemma invalid_email_example: "\<not> is_valid_email ''bob@example''"
  by code_simp

lemma valid_phone_example: "is_valid_phone ''+9123456780''"
  by code_simp

subsection \<open>The existence check\<close>

lemma check_existing_user_users [simp]:
  "users (snd (check_existing_user oc u e p w)) = users w"
  by (cases oc) (simp_all add: check_existing_user_def st_defs Let_def)

lemma check_existing_user_found:
  "\<exists>r\<in>set (users w). matches_any u e p r \<Longrightarrow> fst (check_existing_user oc u e p w)"
  by (cases oc) (auto simp add: check_existing_user_def Let_def filter_empty_conv)

lemma check_existing_user_False:
  "\<not> fst (check_existing_user oc u e p w) \<Longrightarrow> \<forall>r\<in>set (users w). \<not> matches_any u e p r"
  using check_existing_user_found by blast

lemma trace_check_existing_user:
  "\<exists>pre. trace (snd (check_existing_user oc u e p w)) = trace w @ pre \<and>
         Execute ''INSERT INTO users'' \<notin> set (db_events_in pre)"
  by (cases oc) (simp_all add: check_existing_user_def Let_def st_defs)

subsection \<open>Registration\<close>

lemma users_register_user_cases:
  "users (snd (register_user bc oc1 oc2 salt u fn ln em ph pw w)) = users w \<or>
   (\<not> fst (check_existing_user oc1 u em ph w) \<and>
    (\<exists>h. users (snd (register_user bc oc1 oc2 salt u fn ln em ph pw w)) =
      users w @ [\<lparr>username = u, first_name = fn, last_name = ln, email = em,
                  phone_number = ph, password = h\<rparr>]))"
proof (cases "is_valid_email em \<and> is_valid_phone ph")
  case False
  then show ?thesis by (auto simp: register_user_def st_defs)
next
  case valid: True
  obtain b w1 where c: "check_existing_user oc1 u em ph w = (b, w1)" by force
  have w1: "users w1 = users w"
    using check_existing_user_users[of oc1 u em ph w] c by simp
  show ?thesis
  proof (cases b)
    case True
    with valid c w1 show ?thesis by (simp add: register_user_def st_defs)
  next
    case False
    with valid c w1 show ?thesis
      by (cases oc2; cases "hash_password bc salt pw")
         (simp_all add: register_user_def Let_def st_defs)
  qed
qed

lemma register_user_conflict_users:
  assumes "\<exists>r\<in>set (users w). matches_any u em ph r"
  shows "users (snd (register_user bc oc1 oc2 salt u fn ln em ph pw w)) = users w"
  using users_register_user_cases[of bc oc1 oc2 salt u fn ln em ph pw w]
    check_existing_user_found[OF assms, of oc1] by blast

lemma register_user_conflict_trace:
  assumes "fst (check_existing_user oc1 u em ph w)"
  shows "\<exists>pre m. trace (snd (register_user bc oc1 oc2 salt u fn ln em ph pw w)) =
                   trace w @ pre @ [StError m]
     \<and> Execute ''INSERT INTO users'' \<notin> set (db_events_in pre)"
proof (cases "is_valid_email em \<and> is_valid_phone ph")
  case False
  then have "\<exists>m. trace (snd (register_user bc oc1 oc2 salt u fn ln em ph pw w)) =
                  trace w @ [] @ [StError m]"
    by (auto simp: register_user_def st_defs)
  then show ?thesis by (metis db_events_in.simps(1) empty_iff empty_set)
next
  case valid: True
  obtain b w1 where c: "check_existing_user oc1 u em ph w = (b, w1)" by force
  with assms have b by simp
  from trace_check_existing_user[of oc1 u em ph w] c
  obtain pre where "trace w1 = trace w @ pre"
    "Execute ''INSERT INTO users'' \<notin> set (db_events_in pre)"
    by auto
  moreover have "trace (snd (register_user bc oc1 oc2 salt u fn ln em ph pw w)) =
      trace w1 @ [StError ''Username, email, or phone number already in use!'']"
    using valid c \<open>b\<close> by (simp add: register_user_def st_defs)
  ultimately show ?thesis by auto
qed

text \<open>
  C3. A registration whose username, email or phone number is already in some row adds
  no row (the table is left as it was and no INSERT is sent) and reports an error; and
  whatever the request and whatever the database does, registration keeps usernames,
  emails and phone numbers unique across the rows.
\<close>

theorem register_user_keeps_accounts_unique:
  "((\<exists>r\<in>set (users w). username r = u \<or> email r = em \<or> phone_number r = ph) \<longrightarrow>
      users (snd (register_user bc oc1 oc2 salt u fn ln em ph pw w)) = users w \<and>
      errors_in (new_events w (snd (register_user bc oc1 oc2 salt u fn ln em ph pw w))) \<noteq> [] \<and>
      Execute ''INSERT INTO users'' \<notin>
        set (db_events_in (new_events w (snd (register_user bc oc1 oc2 salt u fn ln em ph pw w)))))
   \<and> (unique_accounts (users w) \<longrightarrow>
        unique_accounts (users (snd (register_user bc oc1 oc2 salt u fn ln em ph pw w))))"
proof (intro conjI impI)
  assume "\<exists>r\<in>set (users w). username r = u \<or> email r = em \<or> phone_number r = ph"
  then have ex: "\<exists>r\<in>set (users w). matches_any u em ph r"
    by (simp add: matches_any_def)
  then show "users (snd (register_user bc oc1 oc2 salt u fn ln em ph pw w)) = users w"
    by (rule register_user_conflict_users)
  from register_user_conflict_trace[OF check_existing_user_found[OF ex]]
  obtain pre m where
    t: "trace (snd (register_user bc oc1 oc2 salt u fn ln em ph pw w)) = trace w @ pre @ [StError m]"
    and ni: "Execute ''INSERT INTO users'' \<notin> set (db_events_in pre)"
    by blast
  from t show
    "errors_in (new_events w (snd (register_user bc oc1 oc2 salt u fn ln em ph pw w))) \<noteq> []"
    by (simp add: new_events_def)
  from t ni show "Execute ''INSERT INTO users'' \<notin>
      set (db_events_in (new_events w (snd (register_user bc oc1 oc2 salt u fn ln em ph pw w))))"
    by (simp add: new_events_def)
next
  assume uq: "unique_accounts (users w)"
  from users_register_user_cases[of bc oc1 oc2 salt u fn ln em ph pw w]
  show "unique_accounts (users (snd (register_user bc oc1 oc2 salt u fn ln em ph pw w)))"
  proof
    assume "users (snd (register_user bc oc1 oc2 salt u fn ln em ph pw w)) = users w"
    with uq show ?thesis by simp
  next
    assume a: "\<not> fst (check_existing_user oc1 u em ph w) \<and>
      (\<exists>h. users (snd (register_user bc oc1 oc2 salt u fn ln em ph pw w)) =
      users w @ [\<lparr>username = u, first_name = fn, last_name = ln, email = em,
                  phone_number = ph, password = h\<rparr>])"
    then have "\<forall>r\<in>set (users w). \<not> matches_any u em ph r"
      using check_existing_user_False by blast
    then have "u \<notin> username ` set (users w)" "em \<notin> email ` set (users w)"
      "ph \<notin> phone_number ` set (users w)"
      by (auto simp: matches_any_def)
    with uq a show ?thesis by (auto simp add: unique_accounts_def)
  qed
qed

theorem register_user_keeps_accounts_unique_witness:
  "(\<exists>r\<in>set (users (fresh_session [alice])).
       username r = ''bob'' \<or> email r = ''alice@example.com'' \<or> phone_number r = ''+9123456780'')
   \<and> unique_accounts (users (fresh_session [alice]))
   \<and> users (snd (register_user demo_bcrypt Succeeds Succeeds ''s4lt'' ''bob'' ''Bob'' ''Roe''
               ''alice@example.com'' ''+9123456780'' ''hunter2'' (fresh_session [alice])))
       = users (fresh_session [alice])
   \<and> unique_accounts
       (users (snd (register_user demo_bcrypt Succeeds Succeeds ''s4lt'' ''bob'' ''Bob'' ''Roe''
                 ''alice@example.com'' ''+9123456780'' ''hunter2'' (fresh_session [alice]))))"
  using register_user_keeps_accounts_unique
    [of "fresh_session [alice]" "''bob''" "''alice@example.com''" "''+9123456780''"
        demo_bcrypt Succeeds Succeeds "''s4lt''" "''Bob''" "''Roe''" "''hunter2''"]
  by (simp add: fresh_session_def alice_def unique_accounts_def)

text \<open>
  C4. A request with a malformed email address or a malformed phone number is turned
  down at once: the pass adds one error message to the trace and nothing else changes.
  No connection is opened and no statement is sent, so the table is as it was, and the
  outcome of the two connections registration would otherwise open plays no part.
\<close>

theorem register_user_rejects_malformed:
  assumes "\<not> is_valid_email em \<or> \<not> is_valid_phone ph"
  shows "register_user bc oc1 oc2 salt u fn ln em ph pw w =
           (Finished,
            w\<lparr>trace := trace w @
                [StError (if \<not> is_valid_email em then ''Invalid email format!''
                          else ''Invalid phone number format!'')]\<rparr>)
         \<and> users (snd (register_user bc oc1 oc2 salt u fn ln em ph pw w)) = users w
         \<and> db_events_in (new_events w (snd (register_user bc oc1 oc2 salt u fn ln em ph pw w))) = []
         \<and> errors_in (new_events w (snd (register_user bc oc1 oc2 salt u fn ln em ph pw w))) \<noteq> []"
  using assms by (auto simp: register_user_def st_defs emit_def new_events_def)

theorem register_user_rejects_malformed_witness:
  "\<not> is_valid_email ''bob@example''
   \<and> register_user demo_bcrypt Succeeds Succeeds ''s4lt'' ''bob'' ''Bob'' ''Roe''
        ''bob@example'' ''+9123456780'' ''hunter2'' (fresh_session [alice])
      = (Finished, (fresh_session [alice])\<lparr>trace := [StError ''Invalid email format!'']\<rparr>)"
  using register_user_rejects_malformed
    [where em = "''bob@example''" and ph = "''+9123456780''" and bc = demo_bcrypt
       and ?oc1.0 = Succeeds and ?oc2.0 = Succeeds and salt = "''s4lt''" and u = "''bob''"
       and fn = "''Bob''" and ln = "''Roe''" and pw = "''hunter2''"
       and w = "fresh_session [alice]"]
    invalid_email_example
  by (simp add: fresh_session_def)

text \<open>
  C9. When the connection of the existence check cannot be opened, or its query raises a
  SQL error, \<open>check_existing_user\<close> answers true whatever the table holds. A request
  that has passed the format checks, and so reaches the existence check, is then turned
  down with the "already in use" message, and the table is left as it was.
\<close>

theorem database_failure_blocks_registration:
  assumes "oc \<noteq> Succeeds"
  shows "fst (check_existing_user oc u em ph w) \<and>
     (is_valid_email em \<and> is_valid_phone ph \<longrightarrow>
        users (snd (register_user bc oc oc2 salt u fn ln em ph pw w)) = users w \<and>
        last (trace (snd (register_user bc oc oc2 salt u fn ln em ph pw w))) =
          StError ''Username, email, or phone number already in use!'' \<and>
        Execute ''INSERT INTO users'' \<notin>
          set (db_events_in (new_events w (snd (register_user bc oc oc2 salt u fn ln em ph pw w)))))"
  using assms
  by (cases oc)
     (simp_all add: check_existing_user_def register_user_def Let_def st_defs new_events_def)

theorem database_failure_blocks_registration_witness:
  "Connect_fails ''down'' \<noteq> Succeeds
   \<and> is_valid_email ''bob@example.com'' \<and> is_valid_phone ''+9123456780''
   \<and> users (fresh_session []) = []
   \<and> fst (check_existing_user (Connect_fails ''down'') ''bob'' ''bob@example.com''
            ''+9123456780'' (fresh_session []))
   \<and> users (snd (register_user demo_bcrypt (Connect_fails ''down'') Succeeds ''s4lt'' ''bob''
               ''Bob'' ''Roe'' ''bob@example.com'' ''+9123456780'' ''hunter2''
               (fresh_session []))) = []
   \<and> last (trace (snd (register_user demo_bcrypt (Connect_fails ''down'') Succeeds ''s4lt''
               ''bob'' ''Bob'' ''Roe'' ''bob@example.com'' ''+9123456780'' ''hunter2''
               (fresh_session [])))) =
       StError ''Username, email, or phone number already in use!''"
  using database_failure_blocks_registration
    [where oc = "Connect_fails ''down''" and u = "''bob''" and em = "''bob@example.com''"
       and ph = "''+9123456780''" and w = "fresh_session []" and bc = demo_bcrypt
       and ?oc2.0 = Succeeds and salt = "''s4lt''" and fn = "''Bob''" and ln = "''Roe''"
       and pw = "''hunter2''"]
    valid_email_example valid_phone_example
  by (simp add: fresh_session_def)

subsection \<open>Authentication\<close>

text \<open>
  C1, as the code has it. The table's schema is not part of the script; the username is
  its primary key, so the rows have distinct usernames. Provided the connection opens
  and the SELECT raises no SQL error, \<open>authenticate_user\<close> returns true exactly when
  the table has a row for the username and bcrypt accepts the password against that
  row's hash. It returns false when there is no row for the username, and also whenever
  the connection or the query fails.
\<close>

theorem authenticate_user_iff:
  "(distinct (map username (users w)) \<longrightarrow>
     (fst (authenticate_user bc Succeeds u p w) = Inr True \<longleftrightarrow>
      (\<exists>r\<in>set (users w). username r = u \<and> checkpw bc p (password r) = Some True)))
   \<and> ((\<forall>r\<in>set (users w). username r \<noteq> u) \<longrightarrow>
        fst (authenticate_user bc oc u p w) = Inr False)
   \<and> (oc \<noteq> Succeeds \<longrightarrow> fst (authenticate_user bc oc u p w) = Inr False)"
proof (intro conjI impI)
  assume d: "distinct (map username (users w))"
  show "fst (authenticate_user bc Succeeds u p w) = Inr True \<longleftrightarrow>
      (\<exists>r\<in>set (users w). username r = u \<and> checkpw bc p (password r) = Some True)"
  proof
    assume "fst (authenticate_user bc Succeeds u p w) = Inr True"
    then show "\<exists>r\<in>set (users w). username r = u \<and> checkpw bc p (password r) = Some True"
      by (auto simp: authenticate_user_def verify_password_def Let_def
               split: option.splits dest: find_SomeD)
  next
    assume "\<exists>r\<in>set (users w). username r = u \<and> checkpw bc p (password r) = Some True"
    then obtain r where r: "r \<in> set (users w)" "username r = u"
      "checkpw bc p (password r) = Some True" by blast
    from find_distinct[OF d r(1)] r(2)
    have "find (\<lambda>x. username x = u) (users w) = Some r" by simp
    with r(3) show "fst (authenticate_user bc Succeeds u p w) = Inr True"
      by (simp add: authenticate_user_def verify_password_def Let_def)
  qed
next
  assume "\<forall>r\<in>set (users w). username r \<noteq> u"
  then have "find (\<lambda>x. username x = u) (users w) = None"
    by (simp add: find_None_iff)
  then show "fst (authenticate_user bc oc u p w) = Inr False"
    by (cases oc) (simp_all add: authenticate_user_def Let_def)
next
  assume "oc \<noteq> Succeeds"
  then show "fst (authenticate_user bc oc u p w) = Inr False"
    by (cases oc) (simp_all add: authenticate_user_def Let_def)
qed

theorem authenticate_user_iff_witness:
  "distinct (map username (users (fresh_session [alice])))
   \<and> (\<exists>r\<in>set (users (fresh_session [alice])).
         username r = ''alice'' \<and> checkpw demo_bcrypt ''pw'' (password r) = Some True)
   \<and> fst (authenticate_user demo_bcrypt Succeeds ''alice'' ''pw'' (fresh_session [alice]))
       = Inr True
   \<and> ''bob'' \<notin> set (map username (users (fresh_session [alice])))
   \<and> fst (authenticate_user demo_bcrypt Succeeds ''bob'' ''pw'' (fresh_session [alice]))
       = Inr False
   \<and> Execute_fails ''gone away'' \<noteq> Succeeds
   \<and> fst (authenticate_user demo_bcrypt (Execute_fails ''gone away'') ''alice'' ''pw''
            (fresh_session [alice])) = Inr False"
  using
    authenticate_user_iff [where w = "fresh_session [alice]" and bc = demo_bcrypt
      and u = "''alice''" and p = "''pw''" and oc = "Execute_fails ''gone away''"]
    authenticate_user_iff [where w = "fresh_session [alice]" and bc = demo_bcrypt
      and u = "''bob''" and p = "''pw''" and oc = Succeeds]
  by (simp add: fresh_session_def alice_def demo_bcrypt_def)

text \<open>
  C1 as stated fails when the database cannot be reached: the table has a row for
  \<open>alice\<close> whose hash bcrypt accepts for \<open>pw\<close>, and \<open>authenticate_user\<close> returns false.
\<close>

theorem authenticate_user_connection_down_counterexample:
  "users (fresh_session [alice]) = [alice] \<and> username alice = ''alice''
   \<and> checkpw demo_bcrypt ''pw'' (password alice) = Some True
   \<and> fst (authenticate_user demo_bcrypt (Connect_fails ''down'') ''alice'' ''pw''
            (fresh_session [alice])) = Inr False"
  by (simp add: fresh_session_def alice_def demo_bcrypt_def authenticate_user_def)

subsection \<open>Deletion\<close>

lemma users_delete_user:
  "users (delete_user Succeeds u w) = filter (\<lambda>r. username r \<noteq> u) (users w)"
  by (simp add: delete_user_def Let_def st_defs)

lemma delete_fails_keeps_table:
  "oc \<noteq> Succeeds \<Longrightarrow> users (delete_user oc u w) = users w"
  by (cases oc) (simp_all add: delete_user_def Let_def st_defs)

text \<open>
  C5, as the code has it. When \<open>delete_user\<close> gets its connection and its DELETE raises
  no SQL error, no row of that username is left, and \<open>authenticate_user\<close> on the
  resulting state returns false for every password, whatever its own connection does.
\<close>

theorem delete_user_then_authenticate:
  "fst (authenticate_user bc oc u p (delete_user Succeeds u w)) = Inr False
   \<and> u \<notin> set (map username (users (delete_user Succeeds u w)))"
proof -
  have "find (\<lambda>x. username x = u) (users (delete_user Succeeds u w)) = None"
    by (simp add: users_delete_user find_None_iff)
  then show ?thesis
    by (cases oc) (auto simp add: authenticate_user_def Let_def users_delete_user)
qed

theorem delete_user_then_authenticate_witness:
  "fst (authenticate_user demo_bcrypt Succeeds ''alice'' ''pw'' (fresh_session [alice]))
     = Inr True
   \<and> fst (authenticate_user demo_bcrypt Succeeds ''alice'' ''pw''
            (delete_user Succeeds ''alice'' (fresh_session [alice]))) = Inr False"
  using delete_user_then_authenticate
    [where bc = demo_bcrypt and oc = Succeeds and u = "''alice''" and p = "''pw''"
       and w = "fresh_session [alice]"]
  by (simp add: fresh_session_def alice_def demo_bcrypt_def authenticate_user_def
        verify_password_def emit_def)

text \<open>
  C5 as stated fails when \<open>delete_user\<close> cannot reach the database: it reports the
  error, the row stays, and the next login with the right password succeeds.
\<close>

theorem delete_user_connection_down_counterexample:
  "fst (authenticate_user demo_bcrypt Succeeds ''alice'' ''pw''
          (delete_user (Connect_fails ''down'') ''alice'' (fresh_session [alice])))
     = Inr True"
  by (simp add: fresh_session_def alice_def demo_bcrypt_def authenticate_user_def
        delete_user_def verify_password_def emit_def st_defs)

subsection \<open>Updates\<close>

lemma users_update_user_None:
  "users (snd (update_user bc Succeeds salt u fn ln em ph None w)) =
     sql_update u
       (\<lambda>r. r\<lparr>first_name := fn, last_name := ln, email := em, phone_number := ph\<rparr>)
       (users w)"
  by (simp add: update_user_def Let_def st_defs)

lemma update_user_hashed:
  assumes "pw \<noteq> []" and "hashpw bc pw salt = Inr h"
  shows "fst (update_user bc Succeeds salt u fn ln em ph (Some pw) w) = Finished"
    and "users (snd (update_user bc Succeeds salt u fn ln em ph (Some pw) w)) =
     sql_update u
       (\<lambda>r. r\<lparr>first_name := fn, last_name := ln, email := em, phone_number := ph,
               password := h\<rparr>)
       (users w)"
  using assms by (simp_all add: update_user_def hash_password_def Let_def st_defs)

lemma users_update_user_fails:
  "oc \<noteq> Succeeds \<Longrightarrow> users (snd (update_user bc oc salt u fn ln em ph pw w)) = users w"
  by (cases oc; cases pw; cases "hash_password bc salt (the pw)")
     (simp_all add: update_user_def Let_def st_defs)

lemma update_user_rejected:
  assumes "pw \<noteq> []" and "hashpw bc pw salt = Inl msg"
  shows "users (snd (update_user bc oc salt u fn ln em ph (Some pw) w)) = users w"
    and "db_events_in (new_events w (snd (update_user bc oc salt u fn ln em ph (Some pw) w)))
           \<in> {[], [Connect, Close]}"
    and "(\<forall>e. oc \<noteq> Connect_fails e) \<Longrightarrow>
           update_user bc oc salt u fn ln em ph (Some pw) w =
             (Raised msg, emit (Db Close) (emit (Db Connect) w))"
  using assms
  by (cases oc;
      simp add: update_user_def hash_password_def exn_text_def Let_def st_defs new_events_def)+

text \<open>
  C10. An empty password is no password: \<open>update_user\<close> with \<open>""\<close> and with \<open>None\<close>
  give the same result in every respect (table, session, trace, whatever the database
  does), that result does not depend on bcrypt or on the salt, so nothing is hashed,
  and the password column of the table is left as it was.
\<close>

theorem update_user_empty_password:
  "update_user bc oc salt u fn ln em ph (Some []) w =
     update_user bc' oc salt' u fn ln em ph None w
   \<and> map password (users (snd (update_user bc oc salt u fn ln em ph (Some []) w))) =
       map password (users w)"
  by (cases oc) (simp_all add: update_user_def Let_def st_defs sql_update_def comp_def)

theorem update_user_empty_password_witness:
  "users (snd (update_user demo_bcrypt Succeeds ''s4lt'' ''alice'' ''Alicia'' ''Hargreaves''
            ''alicia@example.com'' ''9123456789'' (Some []) (fresh_session [alice])))
     = [alice\<lparr>first_name := ''Alicia'', last_name := ''Hargreaves'',
              email := ''alicia@example.com''\<rparr>]
   \<and> map password
        (users (snd (update_user demo_bcrypt Succeeds ''s4lt'' ''alice'' ''Alicia''
                  ''Hargreaves'' ''alicia@example.com'' ''9123456789'' (Some [])
                  (fresh_session [alice]))))
     = [''s4ltwp'']"
  using update_user_empty_password
    [where bc = demo_bcrypt and bc' = demo_bcrypt and oc = Succeeds and salt = "''s4lt''"
       and salt' = "''s4lt''" and u = "''alice''" and fn = "''Alicia''"
       and ln = "''Hargreaves''" and em = "''alicia@example.com''" and ph = "''9123456789''"
       and w = "fresh_session [alice]"]
  by (simp add: fresh_session_def alice_def users_update_user_None sql_update_def)

text \<open>
  C2, as the code has it. For a row of the username being updated. Without a password
  the stored hash is never touched, and when the connection opens and the UPDATE raises
  no SQL error the four other fields are set. With a password that is not empty and
  that bcrypt accepts, under the same proviso, the call finishes, the four fields are
  set and the stored hash becomes what \<open>bcrypt.hashpw\<close> returns for the new value and
  the salt just drawn. That hash begins with its salt, as bcrypt's hashes do: when the
  salt is fresh, that is, neither the plaintext nor the old hash begins with it, the
  new hash is neither the plaintext nor the old hash. With a password that bcrypt
  refuses, \<open>hash_password\<close> raises before any statement is sent: the connection is
  closed, the exception leaves \<open>update_user\<close> and the table is left as it was. When
  the connection or the statement fails the table is left as it was.
\<close>

theorem update_user_password_column:
  assumes "i < length (users w)" and "username (users w ! i) = u"
  shows "users (snd (update_user bc Succeeds salt u fn ln em ph None w)) ! i =
           (users w ! i)\<lparr>first_name := fn, last_name := ln, email := em, phone_number := ph\<rparr>
       \<and> password (users (snd (update_user bc oc salt u fn ln em ph None w)) ! i) =
           password (users w ! i)
       \<and> (pw \<noteq> [] \<and> hashpw bc pw salt = Inr h \<longrightarrow>
            fst (update_user bc Succeeds salt u fn ln em ph (Some pw) w) = Finished
            \<and> users (snd (update_user bc Succeeds salt u fn ln em ph (Some pw) w)) ! i =
                (users w ! i)\<lparr>first_name := fn, last_name := ln, email := em,
                              phone_number := ph, password := h\<rparr>)
       \<and> (pw \<noteq> [] \<and> hashpw bc pw salt = Inr h \<and> take (length salt) h = salt
            \<and> take (length salt) pw \<noteq> salt
            \<and> take (length salt) (password (users w ! i)) \<noteq> salt \<longrightarrow>
            password (users (snd (update_user bc Succeeds salt u fn ln em ph (Some pw) w)) ! i)
              \<noteq> pw
            \<and> password (users (snd (update_user bc Succeeds salt u fn ln em ph (Some pw) w)) ! i)
                \<noteq> password (users w ! i))
       \<and> (pw \<noteq> [] \<and> hashpw bc pw salt = Inl msg \<longrightarrow>
            users (snd (update_user bc oc salt u fn ln em ph (Some pw) w)) = users w
            \<and> (\<forall>sql. Execute sql \<notin> set (db_events_in
                  (new_events w (snd (update_user bc oc salt u fn ln em ph (Some pw) w)))))
            \<and> ((\<forall>e. oc \<noteq> Connect_fails e) \<longrightarrow>
                 fst (update_user bc oc salt u fn ln em ph (Some pw) w) = Raised msg))
       \<and> (oc \<noteq> Succeeds \<longrightarrow>
            users (snd (update_user bc oc salt u fn ln em ph (Some pw) w)) = users w)"
proof (intro conjI impI allI)
  show "users (snd (update_user bc Succeeds salt u fn ln em ph None w)) ! i =
      (users w ! i)\<lparr>first_name := fn, last_name := ln, email := em, phone_number := ph\<rparr>"
    using assms by (simp add: users_update_user_None sql_update_def)
  show "password (users (snd (update_user bc oc salt u fn ln em ph None w)) ! i) =
      password (users w ! i)"
  proof (cases "oc = Succeeds")
    case True
    with assms show ?thesis by (simp add: users_update_user_None sql_update_def)
  next
    case False
    then show ?thesis by (simp add: users_update_user_fails)
  qed
  show "fst (update_user bc Succeeds salt u fn ln em ph (Some pw) w) = Finished"
    if "pw \<noteq> [] \<and> hashpw bc pw salt = Inr h"
    using that update_user_hashed(1) by blast
  show "users (snd (update_user bc Succeeds salt u fn ln em ph (Some pw) w)) ! i =
      (users w ! i)\<lparr>first_name := fn, last_name := ln, email := em,
                    phone_number := ph, password := h\<rparr>"
    if "pw \<noteq> [] \<and> hashpw bc pw salt = Inr h"
    using assms that by (simp add: update_user_hashed(2) sql_update_def)
  have stored: "password (users (snd (update_user bc Succeeds salt u fn ln em ph (Some pw) w)) ! i)
      = h"
    if "pw \<noteq> [] \<and> hashpw bc pw salt = Inr h"
    using assms that by (simp add: update_user_hashed(2) sql_update_def)
  show "password (users (snd (update_user bc Succeeds salt u fn ln em ph (Some pw) w)) ! i) \<noteq> pw"
    if f: "pw \<noteq> [] \<and> hashpw bc pw salt = Inr h \<and> take (length salt) h = salt
        \<and> take (length salt) pw \<noteq> salt
        \<and> take (length salt) (password (users w ! i)) \<noteq> salt"
  proof -
    from f have "h \<noteq> pw" by auto
    with stored f show ?thesis by simp
  qed
  show "password (users (snd (update_user bc Succeeds salt u fn ln em ph (Some pw) w)) ! i)
      \<noteq> password (users w ! i)"
    if f: "pw \<noteq> [] \<and> hashpw bc pw salt = Inr h \<and> take (length salt) h = salt
        \<and> take (length salt) pw \<noteq> salt
        \<and> take (length salt) (password (users w ! i)) \<noteq> salt"
  proof -
    from f have "h \<noteq> password (users w ! i)" by auto
    with stored f show ?thesis by simp
  qed
  show "users (snd (update_user bc oc salt u fn ln em ph (Some pw) w)) = users w"
    if "pw \<noteq> [] \<and> hashpw bc pw salt = Inl msg"
    using that update_user_rejected(1) by blast
  show "Execute sql \<notin> set (db_events_in
      (new_events w (snd (update_user bc oc salt u fn ln em ph (Some pw) w))))"
    if r: "pw \<noteq> [] \<and> hashpw bc pw salt = Inl msg" for sql
  proof -
    from r have "db_events_in
        (new_events w (snd (update_user bc oc salt u fn ln em ph (Some pw) w)))
        \<in> {[], [Connect, Close]}"
      using update_user_rejected(2) by blast
    then show ?thesis by auto
  qed
  show "fst (update_user bc oc salt u fn ln em ph (Some pw) w) = Raised msg"
    if "pw \<noteq> [] \<and> hashpw bc pw salt = Inl msg" and "\<forall>e. oc \<noteq> Connect_fails e"
    using that update_user_rejected(3)[of pw bc salt msg oc u fn ln em ph w] by simp
  show "users (snd (update_user bc oc salt u fn ln em ph (Some pw) w)) = users w"
    if "oc \<noteq> Succeeds"
    using that by (rule users_update_user_fails)
qed

theorem update_user_password_column_witness:
  "0 < length (users (fresh_session [alice]))
   \<and> username (users (fresh_session [alice]) ! 0) = ''alice''
   \<and> ''new'' \<noteq> [] \<and> hashpw demo_bcrypt ''new'' ''n3wS'' = Inr ''n3wSwen''
   \<and> take (length ''n3wS'') ''n3wSwen'' = ''n3wS''
   \<and> take (length ''n3wS'') ''new'' \<noteq> ''n3wS''
   \<and> take (length ''n3wS'') (password (users (fresh_session [alice]) ! 0)) \<noteq> ''n3wS''
   \<and> long_password \<noteq> []
   \<and> hashpw demo_bcrypt long_password ''n3wS'' = Inl ''password cannot be longer than 72 bytes''
   \<and> Execute_fails ''gone away'' \<noteq> Succeeds
   \<and> users (snd (update_user demo_bcrypt Succeeds ''n3wS'' ''alice'' ''Alicia'' ''Hargreaves''
               ''alicia@example.com'' ''9000000001'' None (fresh_session [alice]))) ! 0
       = alice\<lparr>first_name := ''Alicia'', last_name := ''Hargreaves'',
               email := ''alicia@example.com'', phone_number := ''9000000001''\<rparr>
   \<and> users (snd (update_user demo_bcrypt Succeeds ''n3wS'' ''alice'' ''Alicia'' ''Hargreaves''
               ''alicia@example.com'' ''9000000001'' (Some ''new'') (fresh_session [alice]))) ! 0
       = alice\<lparr>first_name := ''Alicia'', last_name := ''Hargreaves'',
               email := ''alicia@example.com'', phone_number := ''9000000001'',
               password := ''n3wSwen''\<rparr>
   \<and> fst (update_user demo_bcrypt (Execute_fails ''gone away'') ''n3wS'' ''alice''
            ''Alicia'' ''Hargreaves'' ''alicia@example.com'' ''9000000001''
            (Some long_password) (fresh_session [alice]))
       = Raised ''password cannot be longer than 72 bytes''
   \<and> users (snd (update_user demo_bcrypt (Execute_fails ''gone away'') ''n3wS'' ''alice''
               ''Alicia'' ''Hargreaves'' ''alicia@example.com'' ''9000000001''
               (Some long_password) (fresh_session [alice]))) = [alice]
   \<and> users (snd (update_user demo_bcrypt (Execute_fails ''gone away'') ''n3wS'' ''alice''
               ''Alicia'' ''Hargreaves'' ''alicia@example.com'' ''9000000001'' (Some ''new'')
               (fresh_session [alice]))) = [alice]"
  using
    update_user_password_column
      [where i = 0 and w = "fresh_session [alice]" and u = "''alice''" and bc = demo_bcrypt
         and salt = "''n3wS''" and fn = "''Alicia''" and ln = "''Hargreaves''"
         and em = "''alicia@example.com''" and ph = "''9000000001''" and pw = "''new''"
         and h = "''n3wSwen''" and oc = "Execute_fails ''gone away''"]
    update_user_password_column
      [where i = 0 and w = "fresh_session [alice]" and u = "''alice''" and bc = demo_bcrypt
         and salt = "''n3wS''" and fn = "''Alicia''" and ln = "''Hargreaves''"
         and em = "''alicia@example.com''" and ph = "''9000000001''" and pw = long_password
         and msg = "''password cannot be longer than 72 bytes''"
         and oc = "Execute_fails ''gone away''"]
  by (simp add: fresh_session_def alice_def demo_bcrypt_def long_password_def)

text \<open>
  C2 as stated fails in two ways. When \<open>update_user\<close> cannot reach the database,
  called with a new password, it leaves the old hash (which is not the hash of the new
  password) and the old first name in the row. And when bcrypt refuses the new
  password, here one of 73 characters, \<open>update_user\<close> raises with the connection
  open and the database in reach: no UPDATE is sent, and the row keeps the old hash
  and the old first name.
\<close>

theorem update_user_keeps_old_hash_counterexample:
  "password (users (snd (update_user demo_bcrypt (Connect_fails ''down'') ''n3wS'' ''alice''
       ''Alicia'' ''Hargreaves'' ''alicia@example.com'' ''9000000001'' (Some ''new'')
       (fresh_session [alice]))) ! 0) = ''s4ltwp''
   \<and> hashpw demo_bcrypt ''new'' ''n3wS'' = Inr ''n3wSwen''
   \<and> first_name (users (snd (update_user demo_bcrypt (Connect_fails ''down'') ''n3wS''
       ''alice'' ''Alicia'' ''Hargreaves'' ''alicia@example.com'' ''9000000001'' (Some ''new'')
       (fresh_session [alice]))) ! 0) = ''Alice''
   \<and> length long_password = 73
   \<and> update_user demo_bcrypt Succeeds ''n3wS'' ''alice'' ''Alicia'' ''Hargreaves''
       ''alicia@example.com'' ''9000000001'' (Some long_password) (fresh_session [alice])
     = (Raised ''password cannot be longer than 72 bytes'',
        (fresh_session [alice])\<lparr>trace := [Db Connect, Db Close]\<rparr>)
   \<and> users (fresh_session [alice]) = [alice]"
  by (simp add: fresh_session_def alice_def demo_bcrypt_def hash_password_def
        update_user_def st_defs emit_def exn_text_def long_password_def)

text \<open>
  The proviso on the salt cannot be dropped: bcrypt is a function of the password and
  the salt, so setting the password an account already has, with the salt its hash
  already has, stores the old hash again.
\<close>

lemma update_user_repeated_salt:
  "hashpw demo_bcrypt ''pw'' ''s4lt'' = Inr (password alice)
   \<and> users (snd (update_user demo_bcrypt Succeeds ''s4lt'' ''alice'' ''Alice'' ''Liddell''
               ''alice@example.com'' ''9123456789'' (Some ''pw'') (fresh_session [alice])))
       = [alice]"
  by (simp add: fresh_session_def alice_def demo_bcrypt_def hash_password_def
        update_user_def st_defs emit_def sql_update_def)

section \<open>Properties of the dashboard and the router\<close>

subsection \<open>Bookkeeping\<close>

lemma trace_emit_all [simp]: "trace (emit_all es w) = trace w @ es"
  by (simp add: emit_all_def)

lemma emit_fields [simp]:
  "session_username (emit e w) = session_username w"
  "confirm_delete (emit e w) = confirm_delete w"
  "session_username (emit_all es w) = session_username w"
  "confirm_delete (emit_all es w) = confirm_delete w"
  "users (emit_all es w) = users w"
  by (simp_all add: emit_def emit_all_def)

lemma charts_in_append [simp]: "charts_in (xs @ ys) = charts_in xs @ charts_in ys"
  by (induction xs rule: charts_in.induct) simp_all


lemma ext_ledger: "lower (splitext_ext ''Ledger.xls'') = ''.xls''"
  by code_simp

lemma ext_notes: "lower (splitext_ext ''notes.txt'') = ''.txt''"
  by code_simp




lemma uploader_ledger:
  "\<not> list_ex (\<lambda>t. endswith (lower ''Ledger.xls'') (CHR ''.'' # lower t)) [''csv'', ''xlsx'']"
  by code_simp

lemma uploader_notes:
  "\<not> list_ex (\<lambda>t. endswith (lower ''notes.txt'') (CHR ''.'' # lower t)) [''csv'', ''xlsx'']"
  by code_simp

subsection \<open>Steps run in order\<close>



lemma in_order_Cons:
  "in_order (r # rest) =
     (if fst r = Finished then (fst (in_order rest), snd r @ snd (in_order rest)) else r)"
  by (cases r; cases "fst r") (auto simp: case_prod_beta)

declare in_order.simps [simp del]

lemma in_order_Nil [simp]: "in_order [] = (Finished, [])"
  by (simp add: in_order.simps)


lemma emits_simps [simp]: "fst (emits es) = Finished" "snd (emits es) = es"
  by (simp_all add: emits_def)



subsection \<open>Uploads\<close>

text \<open>
  The read step of the main page takes \<open>.csv\<close> to the CSV reader and \<open>.xls\<close> and
  \<open>.xlsx\<close> to the Excel reader, and for every other extension it reports "Unsupported
  file type" and yields no table; the module's reader does the same for every MIME type
  other than CSV and xlsx.
\<close>

lemma read_file_by_extension:
  "(lower (splitext_ext (name f)) = ''.csv'' \<longrightarrow>
        fst (read_file f) = fst (guarded_read (as_csv f (detect_encoding f))))
   \<and> (lower (splitext_ext (name f)) = ''.xls'' \<or> lower (splitext_ext (name f)) = ''.xlsx'' \<longrightarrow>
        fst (read_file f) = fst (guarded_read (as_excel f)))
   \<and> (lower (splitext_ext (name f)) \<notin> {''.csv'', ''.xls'', ''.xlsx''} \<longrightarrow>
        read_file f =
          (None, [StWrite (''Uploaded file extension: '' @ lower (splitext_ext (name f))),
                  StError ''Unsupported file type. Please upload a CSV or Excel file.'']))
   \<and> (mime f \<noteq> ''text/csv'' \<and>
       mime f \<noteq> ''application/vnd.openxmlformats-officedocument.spreadsheetml.sheet'' \<longrightarrow>
        read_file_module f = (None, [StError ''Unsupported file type.'']))"
  by (auto simp: read_file_def read_file_module_def Let_def case_prod_beta)

lemma read_file_other_extension_example:
  "read_file (excel_upload ''notes.txt'' sales) =
     (None, [StWrite ''Uploaded file extension: .txt'',
             StError ''Unsupported file type. Please upload a CSV or Excel file.''])"
  using ext_notes by (simp add: read_file_def excel_upload_def)

text \<open>
  C8. The upload path does not take \<open>.xls\<close>. The uploader is labelled "Upload a CSV or
  Excel file" and the read step has a branch for \<open>.xls\<close>, but the uploader's \<open>type\<close>
  list is \<open>csv\<close>, \<open>xlsx\<close>: a workbook named \<open>Ledger.xls\<close> is not handed to the
  script, the read step that would take it to the Excel reader is never run, no error
  is reported, and the page asks for an upload as if nothing had been offered.
\<close>

theorem upload_refuses_xls:
  "file_uploader [''csv'', ''xlsx''] (Some (excel_upload ''Ledger.xls'' sales)) = None
   \<and> dashboard (quiet_main\<lparr>offered_file := Some (excel_upload ''Ledger.xls'' sales)\<rparr>) =
       (Finished, [Widget ''Upload a CSV or Excel file'',
                   StWrite ''Upload a file to start the analysis.''])
   \<and> read_file (excel_upload ''Ledger.xls'' sales) =
       (Some sales, [StWrite ''Uploaded file extension: .xls''])"
  using ext_ledger uploader_ledger
  by (simp add: file_uploader_def dashboard_def read_file_def guarded_read_def
        excel_upload_def quiet_main_def emits_def in_order_Cons)

subsection \<open>Heatmap and pie chart\<close>


















lemma trace_main_body:
  "trace (snd (main_body inp w)) =
     trace w @
     [StWrite (style_html (case theme w of None \<Rightarrow> ''light'' | Some t \<Rightarrow> t)),
      StMarkdown '':bar_chart: Dynamic Data Analysis Dashboard'',
      StTitle (''Welcome, '' @ str_option (session_username w) @ ''!''),
      StWrite ''<div style='text-align: right;'>'', Widget ''Edit Profile'',
      StWrite ''</div>'', StWrite ''<div style='text-align: right;'>'', Widget ''Logout'',
      StWrite ''</div>''] @
     snd (dashboard inp)"
  by (simp add: main_body_def Let_def case_prod_beta go_to_edit_profile_def logout_def
        go_to_login_def emit_all_def emit_def split: option.splits)

lemma fst_main_body: "fst (main_body inp w) = fst (dashboard inp)"
  by (simp add: main_body_def Let_def case_prod_beta)






subsection \<open>The guards of the protected pages\<close>

lemma sbg_emit: "same_but_guard pre w1 w2 \<Longrightarrow> same_but_guard pre (emit e w1) (emit e w2)"
  by (simp add: same_but_guard_def emit_def)

lemma sbg_emit_all:
  "same_but_guard pre w1 w2 \<Longrightarrow> same_but_guard pre (emit_all es w1) (emit_all es w2)"
  by (simp add: same_but_guard_def emit_all_def)

lemma sbg_widgets:
  "same_but_guard pre w1 w2 \<Longrightarrow> same_but_guard pre (widgets ls w1) (widgets ls w2)"
  by (simp add: widgets_def sbg_emit_all)

lemma sbg_st:
  "same_but_guard pre w1 w2 \<Longrightarrow> same_but_guard pre (st_error m w1) (st_error m w2)"
  "same_but_guard pre w1 w2 \<Longrightarrow> same_but_guard pre (st_warning m w1) (st_warning m w2)"
  "same_but_guard pre w1 w2 \<Longrightarrow> same_but_guard pre (st_success m w1) (st_success m w2)"
  by (simp_all add: st_defs sbg_emit)

lemma sbg_logout: "same_but_guard pre w1 w2 \<Longrightarrow> same_but_guard pre (logout w1) (logout w2)"
  by (simp add: same_but_guard_def logout_def go_to_login_def)

lemma sbg_confirm:
  "same_but_guard pre w1 w2 \<Longrightarrow>
   same_but_guard pre (w1\<lparr>confirm_delete := c\<rparr>) (w2\<lparr>confirm_delete := c\<rparr>)"
  by (simp add: same_but_guard_def)

lemma alike_Pair [simp]:
  "alike pre (e1, w1) (e2, w2) \<longleftrightarrow> e1 = e2 \<and> same_but_guard pre w1 w2"
  by (simp add: alike_def)

lemma alike_and_then:
  assumes "alike pre r1 r2"
    and "\<And>a b. same_but_guard pre a b \<Longrightarrow> alike pre (f a) (f b)"
  shows "alike pre (and_then r1 f) (and_then r2 f)"
  using assms
  by (cases r1; cases r2; cases "fst r1") (auto simp: and_then_def)

lemma alike_update_user:
  "same_but_guard pre w1 w2 \<Longrightarrow>
   alike pre (update_user bc oc salt u fn ln em ph pw w1)
     (update_user bc oc salt u fn ln em ph pw w2)"
  by (cases oc; cases pw; cases "hash_password bc salt (the pw)")
     (simp_all add: same_but_guard_def update_user_def Let_def st_defs emit_def)

lemma sbg_delete_user:
  "same_but_guard pre w1 w2 \<Longrightarrow>
   same_but_guard pre (delete_user oc u w1) (delete_user oc u w2)"
  by (cases oc) (simp_all add: same_but_guard_def delete_user_def Let_def st_defs emit_def)

lemma sbg_get_all_users:
  assumes "same_but_guard pre w1 w2"
  shows "fst (get_all_users oc w1) = fst (get_all_users oc w2)"
    and "same_but_guard pre (snd (get_all_users oc w1)) (snd (get_all_users oc w2))"
  using assms
  by (cases oc; simp add: same_but_guard_def get_all_users_def Let_def st_defs emit_def)+

lemma main_body_fields:
  "users (snd (main_body inp w)) = users w"
  "confirm_delete (snd (main_body inp w)) = confirm_delete w"
  "theme (snd (main_body inp w)) = theme w"
  "session_username (snd (main_body inp w)) =
     (if logout_button inp then None else session_username w)"
  "uploaded_file (snd (main_body inp w)) =
     (case file_uploader [''csv'', ''xlsx''] (offered_file inp) of
        Some f \<Rightarrow> Some f
      | None \<Rightarrow> if logout_button inp then None else uploaded_file w)"
  by (simp_all add: main_body_def Let_def case_prod_beta go_to_edit_profile_def logout_def
        go_to_login_def emit_all_def emit_def split: option.splits)

lemma alike_main_body:
  "same_but_guard pre w1 w2 \<Longrightarrow> alike pre (main_body inp w1) (main_body inp w2)"
  by (auto simp: alike_def fst_main_body same_but_guard_def main_body_fields trace_main_body
        split: option.splits)

lemma alike_edit_profile_form:
  "same_but_guard pre w1 w2 \<Longrightarrow>
   alike pre (edit_profile_form ev inp u row w1) (edit_profile_form ev inp u row w2)"
  by (simp add: edit_profile_form_def Let_def sbg_widgets sbg_st alike_update_user)

lemma alike_closed:
  "alike pre r1 r2 \<Longrightarrow>
   alike pre (case r1 of (e, w3) \<Rightarrow> (e, emit (Db Close) w3))
     (case r2 of (e, w3) \<Rightarrow> (e, emit (Db Close) w3))"
  by (cases r1; cases r2) (simp add: sbg_emit)

lemma alike_edit_profile_body:
  assumes "same_but_guard pre w1 w2"
  shows "alike pre (edit_profile_body ev inp w1) (edit_profile_body ev inp w2)"
proof -
  let ?h = "emit (StHeader ''Edit Profile'')"
  have h: "same_but_guard pre (?h w1) (?h w2)" using assms by (rule sbg_emit)
  have u: "session_username w1 = session_username w2" "users w1 = users w2"
    using assms by (simp_all add: same_but_guard_def)
  have tail: "alike pre (Finished, widgets [''Back to Dashboard''] a)
      (Finished, widgets [''Back to Dashboard''] b)"
    if "same_but_guard pre a b" for a b
    using that by (simp add: sbg_widgets)
  show ?thesis
    unfolding edit_profile_body_def Let_def
  proof (rule alike_and_then[OF _ tail])
    show "alike pre
      (case create_connection (oc_first ev) (?h w1) of
         (False, w') \<Rightarrow> (Finished, w')
       | (True, w') \<Rightarrow>
           (case case oc_first ev of
                   Execute_fails err \<Rightarrow>
                     (Finished, st_error (''Database Error: '' @ err)
                        (emit (Db (Execute ''SELECT * FROM users WHERE username = %s'')) w'))
                 | _ \<Rightarrow>
                     (case session_username (?h w1) of
                        None \<Rightarrow> (Finished, st_error ''USer not found.''
                           (emit (Db (Execute ''SELECT * FROM users WHERE username = %s'')) w'))
                      | Some u \<Rightarrow>
                          (case find (\<lambda>r. username r = u)
                                  (users (emit (Db (Execute
                                     ''SELECT * FROM users WHERE username = %s'')) w')) of
                             None \<Rightarrow> (Finished, st_error ''USer not found.''
                               (emit (Db (Execute
                                  ''SELECT * FROM users WHERE username = %s'')) w'))
                           | Some row \<Rightarrow> edit_profile_form ev inp u row
                               (emit (Db (Execute
                                  ''SELECT * FROM users WHERE username = %s'')) w'))) of
              (e, w3) \<Rightarrow> (e, emit (Db Close) w3)))
      (case create_connection (oc_first ev) (?h w2) of
         (False, w') \<Rightarrow> (Finished, w')
       | (True, w') \<Rightarrow>
           (case case oc_first ev of
                   Execute_fails err \<Rightarrow>
                     (Finished, st_error (''Database Error: '' @ err)
                        (emit (Db (Execute ''SELECT * FROM users WHERE username = %s'')) w'))
                 | _ \<Rightarrow>
                     (case session_username (?h w2) of
                        None \<Rightarrow> (Finished, st_error ''USer not found.''
                           (emit (Db (Execute ''SELECT * FROM users WHERE username = %s'')) w'))
                      | Some u \<Rightarrow>
                          (case find (\<lambda>r. username r = u)
                                  (users (emit (Db (Execute
                                     ''SELECT * FROM users WHERE username = %s'')) w')) of
                             None \<Rightarrow> (Finished, st_error ''USer not found.''
                               (emit (Db (Execute
                                  ''SELECT * FROM users WHERE username = %s'')) w'))
                           | Some row \<Rightarrow> edit_profile_form ev inp u row
                               (emit (Db (Execute
                                  ''SELECT * FROM users WHERE username = %s'')) w'))) of
              (e, w3) \<Rightarrow> (e, emit (Db Close) w3)))"
    proof (cases "oc_first ev")
      case Succeeds
      then show ?thesis
        using u
        by (auto simp: split: option.splits
                 intro!: alike_closed alike_edit_profile_form sbg_emit sbg_st h)
    next
      case (Connect_fails e)
      then show ?thesis by (simp add: sbg_st h)
    next
      case (Execute_fails e)
      then show ?thesis by (simp add: sbg_emit sbg_st h)
    qed
  qed
qed

lemma alike_admin_update_step:
  "same_but_guard pre w1 w2 \<Longrightarrow>
   alike pre (admin_update_step ev inp u row w1) (admin_update_step ev inp u row w2)"
  by (simp add: admin_update_step_def Let_def sbg_widgets sbg_st alike_update_user)

lemma alike_admin_delete_step:
  assumes "same_but_guard pre w1 w2"
  shows "alike pre (admin_delete_step ev inp u w1) (admin_delete_step ev inp u w2)"
proof -
  have c: "confirm_delete w1 = confirm_delete w2"
    using assms by (simp add: same_but_guard_def)
  show ?thesis
    using c assms
    by (auto simp: admin_delete_step_def Let_def widgets_def
             intro!: sbg_emit_all sbg_st sbg_confirm sbg_delete_user)
qed

lemma alike_admin_panel_body:
  assumes "same_but_guard pre w1 w2"
  shows "alike pre (admin_panel_body ev inp w1) (admin_panel_body ev inp w2)"
proof -
  let ?g1 = "get_all_users (oc_first ev) (emit (StHeader ''Admin Panel'') w1)"
  let ?g2 = "get_all_users (oc_first ev) (emit (StHeader ''Admin Panel'') w2)"
  have h: "same_but_guard pre (emit (StHeader ''Admin Panel'') w1)
             (emit (StHeader ''Admin Panel'') w2)"
    using assms by (rule sbg_emit)
  have rows: "fst ?g1 = fst ?g2" and g: "same_but_guard pre (snd ?g1) (snd ?g2)"
    using sbg_get_all_users[OF h] by simp_all
  let ?l = "emit_all [StWrite ''### User List'', StData ''user_df'',
                      Widget ''Select a user to edit'']"
  have l: "same_but_guard pre (?l (snd ?g1)) (?l (snd ?g2))"
    using g by (rule sbg_emit_all)
  have out: "alike pre
      (let w4 = widgets [''Logout''] a
       in (Finished, if admin_logout_button inp then logout w4 else w4))
      (let w4 = widgets [''Logout''] b
       in (Finished, if admin_logout_button inp then logout w4 else w4))"
    if "same_but_guard pre a b" for a b
    using that by (simp add: Let_def sbg_widgets sbg_logout)
  have d: "alike pre
      (and_then (and_then (admin_update_step ev inp u row (?l (snd ?g1)))
                   (admin_delete_step ev inp u))
         (\<lambda>w3. let w4 = widgets [''Logout''] w3
               in (Finished, if admin_logout_button inp then logout w4 else w4)))
      (and_then (and_then (admin_update_step ev inp u row (?l (snd ?g2)))
                   (admin_delete_step ev inp u))
         (\<lambda>w3. let w4 = widgets [''Logout''] w3
               in (Finished, if admin_logout_button inp then logout w4 else w4)))"
    for u row
    by (intro alike_and_then alike_admin_update_step l alike_admin_delete_step out)
  show ?thesis
    using rows g l d
    by (auto simp: admin_panel_body_def case_prod_beta Let_def split: option.splits)
qed

lemma alike_handler:
  "alike pre r1 r2 \<Longrightarrow> alike pre (handler r1) (handler r2)"
  by (cases r1; cases r2; cases "fst r1") (auto simp: handler_def sbg_st)

lemma sbg_new_events:
  assumes "same_but_guard (trace w @ [e]) a c" and "same_but_guard (trace w) b c"
  shows "new_events w a = e # new_events w b" and "users a = users b"
  using assms by (simp_all add: same_but_guard_def new_events_def)

lemma sbg_login_guard:
  "\<not> authenticated w \<Longrightarrow>
   same_but_guard (trace w @ [StWarning login_warning]) (login_guard w) (w\<lparr>trace := []\<rparr>)"
  "same_but_guard (trace w) (login_guard (w\<lparr>authenticated := True\<rparr>)) (w\<lparr>trace := []\<rparr>)"
  by (simp_all add: same_but_guard_def login_guard_def go_to_login_def st_defs emit_def)

lemma sbg_admin_guard:
  "\<not> admin_authenticated w \<Longrightarrow>
   same_but_guard (trace w @ [StWarning admin_warning]) (admin_guard w) (w\<lparr>trace := []\<rparr>)"
  "same_but_guard (trace w) (admin_guard (w\<lparr>admin_authenticated := True\<rparr>))
     (w\<lparr>trace := []\<rparr>)"
  by (simp_all add: same_but_guard_def admin_guard_def go_to_admin_login_def st_defs emit_def)

lemma render_protected:
  "current_page w = Main_page \<Longrightarrow>
     render ev inp w = handler (main_body (on_main inp) (login_guard w))"
  "current_page w = Edit_profile \<Longrightarrow>
     render ev inp w = handler (edit_profile_body ev (on_edit_profile inp) (login_guard w))"
  "current_page w = Admin_panel \<Longrightarrow>
     render ev inp w = handler (admin_panel_body ev (on_admin_panel inp) (admin_guard w))"
  by (simp_all add: render_def main_page_def edit_profile_page_def admin_panel_page_def)

lemma guarded_pass:
  assumes "alike (trace w @ [e]) r1 r" and "alike (trace w) r2 r"
  shows "fst (handler r1) = fst (handler r2)"
    and "new_events w (snd (handler r1)) = e # new_events w (snd (handler r2))"
    and "users (snd (handler r1)) = users (snd (handler r2))"
proof -
  have a: "alike (trace w @ [e]) (handler r1) (handler r)"
    "alike (trace w) (handler r2) (handler r)"
    using assms by (simp_all add: alike_handler)
  then show "fst (handler r1) = fst (handler r2)" by (simp add: alike_def)
  from a have "same_but_guard (trace w @ [e]) (snd (handler r1)) (snd (handler r))"
    "same_but_guard (trace w) (snd (handler r2)) (snd (handler r))"
    by (simp_all add: alike_def)
  from sbg_new_events[OF this]
  show "new_events w (snd (handler r1)) = e # new_events w (snd (handler r2))"
    and "users (snd (handler r1)) = users (snd (handler r2))"
    by simp_all
qed

text \<open>
  C6. On the main page and the profile page without a login, and on the admin panel
  without an admin login, the pass is the page's body run from the state the guard
  leaves: the warning shown and the page set to \<open>login\<close> (or \<open>admin_login\<close>). The body
  runs in full: the pass ends the same way, emits after the warning exactly the events,
  and leaves exactly the table, that the same pass gives a session that is logged in.
\<close>

theorem guard_does_not_stop_the_page:
  "(current_page w = Main_page \<and> \<not> authenticated w \<longrightarrow>
      render ev inp w =
        handler (main_body (on_main inp) (go_to_login (st_warning login_warning w)))
      \<and> fst (render ev inp w) = fst (render ev inp (w\<lparr>authenticated := True\<rparr>))
      \<and> new_events w (snd (render ev inp w)) =
          StWarning login_warning #
          new_events w (snd (render ev inp (w\<lparr>authenticated := True\<rparr>)))
      \<and> users (snd (render ev inp w)) =
          users (snd (render ev inp (w\<lparr>authenticated := True\<rparr>))))
   \<and> (current_page w = Edit_profile \<and> \<not> authenticated w \<longrightarrow>
      render ev inp w =
        handler (edit_profile_body ev (on_edit_profile inp)
                   (go_to_login (st_warning login_warning w)))
      \<and> fst (render ev inp w) = fst (render ev inp (w\<lparr>authenticated := True\<rparr>))
      \<and> new_events w (snd (render ev inp w)) =
          StWarning login_warning #
          new_events w (snd (render ev inp (w\<lparr>authenticated := True\<rparr>)))
      \<and> users (snd (render ev inp w)) =
          users (snd (render ev inp (w\<lparr>authenticated := True\<rparr>))))
   \<and> (current_page w = Admin_panel \<and> \<not> admin_authenticated w \<longrightarrow>
      render ev inp w =
        handler (admin_panel_body ev (on_admin_panel inp)
                   (go_to_admin_login (st_warning admin_warning w)))
      \<and> fst (render ev inp w) = fst (render ev inp (w\<lparr>admin_authenticated := True\<rparr>))
      \<and> new_events w (snd (render ev inp w)) =
          StWarning admin_warning #
          new_events w (snd (render ev inp (w\<lparr>admin_authenticated := True\<rparr>)))
      \<and> users (snd (render ev inp w)) =
          users (snd (render ev inp (w\<lparr>admin_authenticated := True\<rparr>))))"
proof (intro conjI impI)
  assume a: "current_page w = Main_page \<and> \<not> authenticated w"
  let ?w' = "w\<lparr>authenticated := True\<rparr>"
  let ?b = "main_body (on_main inp)"
  from a have p: "current_page ?w' = Main_page" by simp
  from a have r: "render ev inp w = handler (?b (login_guard w))"
    "render ev inp ?w' = handler (?b (login_guard ?w'))"
    using p by (simp_all only: render_protected)
  from a show "render ev inp w =
        handler (?b (go_to_login (st_warning login_warning w)))"
    by (simp add: r login_guard_def)
  from a have s: "alike (trace w @ [StWarning login_warning]) (?b (login_guard w))
       (?b (w\<lparr>trace := []\<rparr>))"
    "alike (trace w) (?b (login_guard ?w')) (?b (w\<lparr>trace := []\<rparr>))"
    by (simp_all add: alike_main_body sbg_login_guard)
  from guarded_pass[OF s]
  show "fst (render ev inp w) = fst (render ev inp ?w')"
    and "new_events w (snd (render ev inp w)) =
          StWarning login_warning # new_events w (snd (render ev inp ?w'))"
    and "users (snd (render ev inp w)) = users (snd (render ev inp ?w'))"
    unfolding r by simp_all
next
  assume a: "current_page w = Edit_profile \<and> \<not> authenticated w"
  let ?w' = "w\<lparr>authenticated := True\<rparr>"
  let ?b = "edit_profile_body ev (on_edit_profile inp)"
  from a have p: "current_page ?w' = Edit_profile" by simp
  from a have r: "render ev inp w = handler (?b (login_guard w))"
    "render ev inp ?w' = handler (?b (login_guard ?w'))"
    using p by (simp_all only: render_protected)
  from a show "render ev inp w =
        handler (?b (go_to_login (st_warning login_warning w)))"
    by (simp add: r login_guard_def)
  from a have s: "alike (trace w @ [StWarning login_warning]) (?b (login_guard w))
       (?b (w\<lparr>trace := []\<rparr>))"
    "alike (trace w) (?b (login_guard ?w')) (?b (w\<lparr>trace := []\<rparr>))"
    by (simp_all add: alike_edit_profile_body sbg_login_guard)
  from guarded_pass[OF s]
  show "fst (render ev inp w) = fst (render ev inp ?w')"
    and "new_events w (snd (render ev inp w)) =
          StWarning login_warning # new_events w (snd (render ev inp ?w'))"
    and "users (snd (render ev inp w)) = users (snd (render ev inp ?w'))"
    unfolding r by simp_all
next
  assume a: "current_page w = Admin_panel \<and> \<not> admin_authenticated w"
  let ?w' = "w\<lparr>admin_authenticated := True\<rparr>"
  let ?b = "admin_panel_body ev (on_admin_panel inp)"
  from a have p: "current_page ?w' = Admin_panel" by simp
  from a have r: "render ev inp w = handler (?b (admin_guard w))"
    "render ev inp ?w' = handler (?b (admin_guard ?w'))"
    using p by (simp_all only: render_protected)
  from a show "render ev inp w =
        handler (?b (go_to_admin_login (st_warning admin_warning w)))"
    by (simp add: r admin_guard_def)
  from a have s: "alike (trace w @ [StWarning admin_warning]) (?b (admin_guard w))
       (?b (w\<lparr>trace := []\<rparr>))"
    "alike (trace w) (?b (admin_guard ?w')) (?b (w\<lparr>trace := []\<rparr>))"
    by (simp_all add: alike_admin_panel_body sbg_admin_guard)
  from guarded_pass[OF s]
  show "fst (render ev inp w) = fst (render ev inp ?w')"
    and "new_events w (snd (render ev inp w)) =
          StWarning admin_warning # new_events w (snd (render ev inp ?w'))"
    and "users (snd (render ev inp w)) = users (snd (render ev inp ?w'))"
    unfolding r by simp_all
qed

theorem guard_does_not_stop_the_page_witness:
  "current_page ((fresh_session [alice])\<lparr>current_page := Main_page\<rparr>) = Main_page
   \<and> \<not> authenticated ((fresh_session [alice])\<lparr>current_page := Main_page\<rparr>)
   \<and> new_events ((fresh_session [alice])\<lparr>current_page := Main_page\<rparr>)
        (snd (render demo_env quiet_inputs ((fresh_session [alice])\<lparr>current_page := Main_page\<rparr>)))
      = StWarning login_warning #
        new_events ((fresh_session [alice])\<lparr>current_page := Main_page\<rparr>)
          (snd (render demo_env quiet_inputs
                 ((fresh_session [alice])\<lparr>current_page := Main_page, authenticated := True\<rparr>)))
   \<and> current_page (snd (render demo_env quiet_inputs
        ((fresh_session [alice])\<lparr>current_page := Main_page\<rparr>))) = Login
   \<and> last (trace (snd (render demo_env quiet_inputs
        ((fresh_session [alice])\<lparr>current_page := Main_page\<rparr>))))
      = StWrite ''Upload a file to start the analysis.''
   \<and> current_page ((fresh_session [alice])\<lparr>current_page := Edit_profile\<rparr>) = Edit_profile
   \<and> trace (snd (render demo_env quiet_inputs
        ((fresh_session [alice])\<lparr>current_page := Edit_profile\<rparr>)))
      = [StWarning login_warning, StHeader ''Edit Profile'', Db Connect,
         Db (Execute ''SELECT * FROM users WHERE username = %s''),
         StError ''USer not found.'', Db Close, Widget ''Back to Dashboard'']
   \<and> current_page ((fresh_session [alice])\<lparr>current_page := Admin_panel\<rparr>) = Admin_panel
   \<and> \<not> admin_authenticated ((fresh_session [alice])\<lparr>current_page := Admin_panel\<rparr>)
   \<and> trace (snd (render demo_env quiet_inputs
        ((fresh_session [alice])\<lparr>current_page := Admin_panel\<rparr>)))
      = [StWarning admin_warning, StHeader ''Admin Panel'', Db Connect,
         Db (Execute ''SELECT * FROM users''), Db Close, StWrite ''### User List'',
         StData ''user_df'', Widget ''Select a user to edit'', Widget ''First Name'',
         Widget ''Last Name'', Widget ''Email'', Widget ''Phone'',
         Widget ''New Password (leave blank to keep current)'',
         Widget ''Confirm New Password'', Widget ''Update User'', Widget ''Delete User'',
         Widget ''Logout'']
   \<and> current_page (snd (render demo_env quiet_inputs
        ((fresh_session [alice])\<lparr>current_page := Admin_panel\<rparr>))) = Admin_login"
proof -
  let ?m = "(fresh_session [alice])\<lparr>current_page := Main_page\<rparr>"
  let ?e = "(fresh_session [alice])\<lparr>current_page := Edit_profile\<rparr>"
  let ?a = "(fresh_session [alice])\<lparr>current_page := Admin_panel\<rparr>"
  have m: "current_page ?m = Main_page \<and> \<not> authenticated ?m"
    and e: "current_page ?e = Edit_profile \<and> \<not> authenticated ?e"
    and a: "current_page ?a = Admin_panel \<and> \<not> admin_authenticated ?a"
    by (simp_all add: fresh_session_def)
  note t = guard_does_not_stop_the_page [where ev = demo_env and inp = quiet_inputs]
  have tm: "render demo_env quiet_inputs ?m =
      handler (main_body (on_main quiet_inputs) (go_to_login (st_warning login_warning ?m)))"
    "new_events ?m (snd (render demo_env quiet_inputs ?m)) =
       StWarning login_warning #
       new_events ?m (snd (render demo_env quiet_inputs (?m\<lparr>authenticated := True\<rparr>)))"
    using t [where w = ?m] m by blast+
  have te: "render demo_env quiet_inputs ?e =
      handler (edit_profile_body demo_env (on_edit_profile quiet_inputs)
                 (go_to_login (st_warning login_warning ?e)))"
    using t [where w = ?e] e by blast
  have ta: "render demo_env quiet_inputs ?a =
      handler (admin_panel_body demo_env (on_admin_panel quiet_inputs)
                 (go_to_admin_login (st_warning admin_warning ?a)))"
    using t [where w = ?a] a by blast
  have q: "on_main quiet_inputs = quiet_main" "offered_file quiet_main = None"
    "\<not> edit_profile_button quiet_main" "\<not> logout_button quiet_main"
    by (simp_all add: quiet_inputs_def quiet_main_def)
  have d: "dashboard quiet_main =
      (Finished, [Widget ''Upload a CSV or Excel file'',
                  StWrite ''Upload a file to start the analysis.''])"
    by (simp add: dashboard_def file_uploader_def q emits_def in_order_Cons)
  have m2: "current_page (snd (render demo_env quiet_inputs ?m)) = Login"
    "last (trace (snd (render demo_env quiet_inputs ?m)))
      = StWrite ''Upload a file to start the analysis.''"
    unfolding tm(1) q(1)
    by (simp_all add: handler_def main_body_def d q file_uploader_def go_to_login_def
          st_defs emit_def emit_all_def fresh_session_def Let_def)
  have e2: "trace (snd (render demo_env quiet_inputs ?e))
      = [StWarning login_warning, StHeader ''Edit Profile'', Db Connect,
         Db (Execute ''SELECT * FROM users WHERE username = %s''),
         StError ''USer not found.'', Db Close, Widget ''Back to Dashboard'']"
    unfolding te
    by (simp add: handler_def and_then_def edit_profile_body_def demo_env_def
          quiet_inputs_def go_to_login_def st_defs emit_def emit_all_def widgets_def
          fresh_session_def Let_def)
  have a2: "trace (snd (render demo_env quiet_inputs ?a))
      = [StWarning admin_warning, StHeader ''Admin Panel'', Db Connect,
         Db (Execute ''SELECT * FROM users''), Db Close, StWrite ''### User List'',
         StData ''user_df'', Widget ''Select a user to edit'', Widget ''First Name'',
         Widget ''Last Name'', Widget ''Email'', Widget ''Phone'',
         Widget ''New Password (leave blank to keep current)'',
         Widget ''Confirm New Password'', Widget ''Update User'', Widget ''Delete User'',
         Widget ''Logout'']"
    "current_page (snd (render demo_env quiet_inputs ?a)) = Admin_login"
    unfolding ta
    by (simp_all add: handler_def and_then_def admin_panel_body_def admin_update_step_def
          admin_delete_step_def get_all_users_def selectbox_def demo_env_def
          quiet_inputs_def go_to_admin_login_def st_defs emit_def emit_all_def widgets_def
          fresh_session_def alice_def Let_def)
  from m e a tm(2) m2 e2 a2 show ?thesis by simp
qed

end
